theory Spec2Isabelle
  imports Main "HOL-Library.Word" "HOL-Library.Log_Nat"
begin

section \<open>py3status-lights: the LED frame encoder and the click handler\<close>

text \<open>
  The module \<^verbatim>\<open>lights.py\<close> is one Python class. Its integers are Python's unbounded
  integers (\<open>int\<close>), its strings are \<open>string\<close>, the values it may raise are a
  \<open>py_error\<close>, and what it does to the socket, the host's log and the host's storage is
  written out as a \<open>world\<close> that every operation takes and returns.
\<close>

subsection \<open>Exceptions\<close>

datatype py_error =
  ZeroDivisionError | OverflowError | TypeError | ValueError | IndexError | OSError

subsection \<open>Python's \<^verbatim>\<open>int(a / b)\<close>\<close>

text \<open>
  The encoder never uses \<^verbatim>\<open>//\<close>. It writes \<^verbatim>\<open>int(a / b)\<close>: \<^verbatim>\<open>/\<close> on two integers is
  true division, whose result is the double nearest to the exact quotient (ties to the even
  mantissa; \<^verbatim>\<open>OverflowError\<close> when that is \<open>2 ^ 1024\<close> or more; \<^verbatim>\<open>ZeroDivisionError\<close> for a
  zero divisor), and \<^verbatim>\<open>int\<close> then drops the fraction, towards zero.

  \<open>round_half_even p r\<close> is the integer nearest to \<open>p / r\<close>, ties to even.
  \<open>double_trunc p r\<close> is the integer part of the double nearest to \<open>p / r\<close> for
  \<open>0 \<le> p\<close> and \<open>0 < r\<close>: a quotient below one half rounds to at most one half;
  otherwise, with \<open>e\<close> the binary exponent of the quotient, the double is a 53-bit
  mantissa times \<open>2 ^ (e - 52)\<close>.
\<close>

definition round_half_even :: "int \<Rightarrow> int \<Rightarrow> int" where
  "round_half_even p r =
     (let k = p div r; m = p mod r
      in if 2 * m < r then k
         else if r < 2 * m then k + 1
         else if even k then k else k + 1)"

definition double_trunc :: "int \<Rightarrow> int \<Rightarrow> int" where
  "double_trunc p r =
     (if 2 * p < r then 0
      else let e = bitlen (p div r) - 1
           in if e \<le> 52
              then round_half_even (p * 2 ^ nat (52 - e)) r div 2 ^ nat (52 - e)
              else round_half_even p (r * 2 ^ nat (e - 52)) * 2 ^ nat (e - 52))"

definition int_truediv :: "int \<Rightarrow> int \<Rightarrow> py_error + int" where
  "int_truediv a b =
     (if b = 0 then Inl ZeroDivisionError
      else let t = double_trunc \<bar>a\<bar> \<bar>b\<bar>
           in if 2 ^ 1024 \<le> t then Inl OverflowError
              else Inr (if (a < 0) \<noteq> (b < 0) then - t else t))"

subsection \<open>The frame encoder\<close>

text \<open>\<^verbatim>\<open>_header\<close>: the two header bytes of the \<^verbatim>\<open>drgb\<close> protocol, as hex digits.\<close>

definition header :: "string \<Rightarrow> string" where
  "header proto = (if proto = ''drgb'' then ('''' @ ''02'') @ ''FF'' else '''')"

text \<open>\<^verbatim>\<open>range(k)\<close>: the indices \<open>0, \<dots>, k - 1\<close>, none when \<open>k \<le> 0\<close>.\<close>

definition py_range :: "int \<Rightarrow> int list" where
  "py_range k = [0..k - 1]"

text \<open>
  The loop of the modes \<^verbatim>\<open>center\<close> and \<^verbatim>\<open>default\<close>: one six-digit block per LED index,
  appended to the frame built so far.
\<close>

fun fill_segment :: "int \<Rightarrow> int \<Rightarrow> string \<Rightarrow> int list \<Rightarrow> string \<Rightarrow> string" where
  "fill_segment start leds color [] fr = fr"
| "fill_segment start leds color (n # ns) fr =
     fill_segment start leds color ns
       (if start \<le> n \<and> n < start + leds then fr @ color else fr @ ''000000'')"

text \<open>
  The loop of the mode \<^verbatim>\<open>distribute\<close>. The test is \<^verbatim>\<open>n % m == 1 or m < 2\<close>: the left
  operand is evaluated first, and \<^verbatim>\<open>n % 0\<close> raises.
\<close>

fun fill_distribute :: "int \<Rightarrow> string \<Rightarrow> int list \<Rightarrow> string \<Rightarrow> py_error + string" where
  "fill_distribute m color [] fr = Inr fr"
| "fill_distribute m color (n # ns) fr =
     (if m = 0 then Inl ZeroDivisionError
      else fill_distribute m color ns
             (if n mod m = 1 \<or> m < 2 then fr @ color else fr @ ''000000''))"

text \<open>The local variable \<^verbatim>\<open>start\<close> of \<^verbatim>\<open>_frame\<close>.\<close>

definition frame_start :: "string \<Rightarrow> int \<Rightarrow> int \<Rightarrow> py_error + int" where
  "frame_start mode leds leds_total =
     (if mode = ''center'' then int_truediv (leds_total - leds) 2 else Inr 0)"

text \<open>
  \<^verbatim>\<open>_frame\<close>. The first argument is \<^verbatim>\<open>self.mode\<close>, the only attribute it reads. The result is
  \<open>Inl\<close> an exception, \<open>Inr None\<close> for the bare \<^verbatim>\<open>return\<close>, or \<open>Inr (Some frame)\<close>.
\<close>

definition frame :: "string \<Rightarrow> string \<Rightarrow> int \<Rightarrow> int \<Rightarrow> string \<Rightarrow> py_error + string option" where
  "frame mode proto leds leds_total color =
     (case frame_start mode leds leds_total of
        Inl e \<Rightarrow> Inl e
      | Inr start \<Rightarrow>
          if mode = ''center'' \<or> mode = ''default''
          then Inr (Some (fill_segment start leds color (py_range leds_total) (header proto)))
          else if mode = ''distribute''
          then (if leds < 1 then Inr None
                else case int_truediv leds_total leds of
                       Inl e \<Rightarrow> Inl e
                     | Inr m \<Rightarrow>
                         (case fill_distribute m color (py_range leds_total) (header proto) of
                            Inl e \<Rightarrow> Inl e
                          | Inr fr \<Rightarrow> Inr (Some fr)))
          else Inr (Some (header proto)))"

subsection \<open>Configuration, state and the outside world\<close>

text \<open>
  The configuration parameters the encoder and the click handler read are class attributes;
  \<open>default_config\<close> holds the values the class declares.
\<close>

record config =
  proto :: string
  leds_total :: int
  mode :: string
  colors :: "string list"
  color_picker :: "string list"

definition default_config :: config where
  "default_config =
     \<lparr>proto = ''rgb'', leds_total = 100, mode = ''default'',
      colors = [''#68D74C'', ''#E05B22'', ''#C60D12''],
      color_picker = [''color_picker'']\<rparr>"

text \<open>
  The instance attributes that a click changes. \<^verbatim>\<open>self.ncolors\<close> is set once, to the
  length of the palette.
\<close>

record state =
  leds :: int
  color :: string
  color_idx :: int

definition ncolors :: "config \<Rightarrow> int" where
  "ncolors cfg = int (length (colors cfg))"

text \<open>
  What the module is given from outside: the host's \<^verbatim>\<open>COLOR_GOOD\<close>, what the socket's
  \<^verbatim>\<open>sendto\<close> does with a datagram (\<open>None\<close>: it returns; \<open>Some e\<close>: it raises \<open>e\<close>),
  and what running the colour picker's command gives (\<open>Inl e\<close>: the process cannot be
  started and \<^verbatim>\<open>Popen\<close> raises \<open>e\<close>; \<open>Inr lines\<close>: the lines it prints until it exits).
\<close>

type_synonym byte = "8 word"

record host =
  COLOR_GOOD :: string
  sock_sendto :: "byte list \<Rightarrow> py_error option"
  run_color_picker :: "string list \<Rightarrow> py_error + string list"

text \<open>
  What the module does to the outside: the datagrams the socket has taken, the entries
  written to the host's log, the three keys of the host's storage, and the number of
  refreshes asked of the host (\<^verbatim>\<open>py3.update()\<close>). A log entry keeps the exception of
  \<^verbatim>\<open>str(e)\<close> beside the text it is appended to.
\<close>

datatype severity = LOG_INFO | LOG_WARNING | LOG_ERROR

record log_entry =
  msg :: string
  exn :: "py_error option"
  lvl :: severity

record stored =
  stored_leds :: "int option"
  stored_color :: "string option"
  stored_color_idx :: "int option"

record world =
  sent :: "byte list list"
  py3_log :: "log_entry list"
  py3_storage :: stored
  py3_updates :: nat

definition py3_log_add :: "string \<Rightarrow> py_error option \<Rightarrow> severity \<Rightarrow> world \<Rightarrow> world" where
  "py3_log_add m e l w = w\<lparr>py3_log := py3_log w @ [\<lparr>msg = m, exn = e, lvl = l\<rparr>]\<rparr>"

text \<open>A host that accepts every datagram and whose colour picker prints nothing.\<close>

definition quiet_host :: host where
  "quiet_host =
     \<lparr>COLOR_GOOD = ''#00FF00'', sock_sendto = (\<lambda>d. None),
      run_color_picker = (\<lambda>cmd. Inr [])\<rparr>"

text \<open>The same host on a machine where the colour picker's command does not exist.\<close>

definition no_picker_host :: host where
  "no_picker_host = quiet_host\<lparr>run_color_picker := (\<lambda>cmd. Inl OSError)\<rparr>"

definition empty_world :: world where
  "empty_world =
     \<lparr>sent = [], py3_log = [],
      py3_storage = \<lparr>stored_leds = None, stored_color = None, stored_color_idx = None\<rparr>,
      py3_updates = 0\<rparr>"

subsection \<open>\<^verbatim>\<open>bytes.fromhex\<close>\<close>

text \<open>
  ASCII whitespace is skipped before each pair of hex digits; anything else that is not a
  pair of hex digits is a \<^verbatim>\<open>ValueError\<close>.
\<close>

definition isspace :: "char \<Rightarrow> bool" where
  "isspace c = (c = CHR '' '' \<or> c = CHR 0x09 \<or> c = CHR 0x0A \<or> c = CHR 0x0B
                \<or> c = CHR 0x0C \<or> c = CHR 0x0D)"

definition hex_digit :: "char \<Rightarrow> nat option" where
  "hex_digit c =
     (let n = (of_char c :: nat)
      in if 48 \<le> n \<and> n \<le> 57 then Some (n - 48)
         else if 65 \<le> n \<and> n \<le> 70 then Some (n - 55)
         else if 97 \<le> n \<and> n \<le> 102 then Some (n - 87)
         else None)"

fun fromhex :: "string \<Rightarrow> py_error + byte list" where
  "fromhex [] = Inr []"
| "fromhex [c] = (if isspace c then Inr [] else Inl ValueError)"
| "fromhex (c # d # s) =
     (if isspace c then fromhex (d # s)
      else case (hex_digit c, hex_digit d) of
             (Some h, Some l) \<Rightarrow>
               (case fromhex s of
                  Inl e \<Rightarrow> Inl e
                | Inr bs \<Rightarrow> Inr (of_nat (16 * h + l) # bs))
           | _ \<Rightarrow> Inl ValueError)"

subsection \<open>\<^verbatim>\<open>_send_frame\<close>\<close>

text \<open>
  The \<^verbatim>\<open>try\<close> statement of \<^verbatim>\<open>_send_frame\<close>, on the value \<^verbatim>\<open>msg\<close> that \<^verbatim>\<open>_frame\<close> returned:
  \<^verbatim>\<open>bytes.fromhex(None)\<close> is a \<^verbatim>\<open>TypeError\<close>, and whatever is raised inside the \<^verbatim>\<open>try\<close> is
  logged at error severity and dropped.
\<close>

definition try_send :: "host \<Rightarrow> string option \<Rightarrow> world \<Rightarrow> world" where
  "try_send h m w =
     (case (case m of None \<Rightarrow> Inl TypeError | Some s \<Rightarrow> fromhex s) of
        Inl e \<Rightarrow> py3_log_add ''Failed to contact light: '' (Some e) LOG_ERROR w
      | Inr bs \<Rightarrow>
          (case sock_sendto h bs of
             None \<Rightarrow> w\<lparr>sent := sent w @ [bs]\<rparr>
           | Some e \<Rightarrow> py3_log_add ''Failed to contact light: '' (Some e) LOG_ERROR w))"

text \<open>
  \<^verbatim>\<open>_send_frame\<close>: the call of \<^verbatim>\<open>_frame\<close> stands before the \<^verbatim>\<open>try\<close>, so what \<^verbatim>\<open>_frame\<close>
  raises leaves \<^verbatim>\<open>_send_frame\<close>.
\<close>

definition send_frame :: "config \<Rightarrow> host \<Rightarrow> state \<Rightarrow> world \<Rightarrow> py_error + world" where
  "send_frame cfg h st w =
     (case frame (mode cfg) (proto cfg) (leds st) (leds_total cfg) (color st) of
        Inl e \<Rightarrow> Inl e
      | Inr m \<Rightarrow> Inr (try_send h m w))"

subsection \<open>\<^verbatim>\<open>on_click\<close>\<close>

text \<open>
  A call either returns or raises; in both cases it leaves the attributes and the world as
  they are at that moment.
\<close>

datatype outcome = Returned state world | Raised py_error state world

fun state_of :: "outcome \<Rightarrow> state" where
  "state_of (Returned st w) = st"
| "state_of (Raised e st w) = st"

fun world_of :: "outcome \<Rightarrow> world" where
  "world_of (Returned st w) = w"
| "world_of (Raised e st w) = w"

text \<open>Indexing a list: a negative index counts from the end, an index out of range raises.\<close>

definition py_index :: "'a list \<Rightarrow> int \<Rightarrow> py_error + 'a" where
  "py_index xs i =
     (if 0 \<le> i \<and> i < int (length xs) then Inr (xs ! nat i)
      else if i < 0 \<and> - int (length xs) \<le> i then Inr (xs ! nat (int (length xs) + i))
      else Inl IndexError)"

text \<open>\<^verbatim>\<open>c.rstrip("\n")\<close>: every trailing newline is removed.\<close>

definition rstrip_newline :: "string \<Rightarrow> string" where
  "rstrip_newline s = rev (dropWhile (\<lambda>c. c = CHR 0x0A) (rev s))"

text \<open>\<^verbatim>\<open>_store_state\<close>.\<close>

definition store_state :: "state \<Rightarrow> world \<Rightarrow> world" where
  "store_state st w =
     w\<lparr>py3_storage :=
         \<lparr>stored_leds = Some (leds st), stored_color = Some (color st),
          stored_color_idx = Some (color_idx st)\<rparr>\<rparr>"

text \<open>The loop of button 2 over the lines of the colour picker.\<close>

fun pick_colors :: "config \<Rightarrow> host \<Rightarrow> string list \<Rightarrow> state \<Rightarrow> world \<Rightarrow> outcome" where
  "pick_colors cfg h [] st w = Returned st w"
| "pick_colors cfg h (c # cs) st w =
     (let st1 = st\<lparr>color := rstrip_newline c\<rparr>;
          w1 = py3_log_add (color st1) None LOG_INFO w
      in case send_frame cfg h st1 w1 of
           Inl e \<Rightarrow> Raised e st1 w1
         | Inr w2 \<Rightarrow> pick_colors cfg h cs st1 (w2\<lparr>py3_updates := Suc (py3_updates w2)\<rparr>))"

text \<open>The \<^verbatim>\<open>if\<close>/\<^verbatim>\<open>elif\<close> chain of \<^verbatim>\<open>on_click\<close> on \<^verbatim>\<open>event["button"]\<close>.\<close>

definition click_branch :: "config \<Rightarrow> host \<Rightarrow> int \<Rightarrow> state \<Rightarrow> world \<Rightarrow> outcome" where
  "click_branch cfg h button st w =
     (if button = 1 then
        (let i = color_idx st + 1;
             st1 = st\<lparr>color_idx := (if i > ncolors cfg - 1 then 0 else i)\<rparr>
         in case py_index (colors cfg) (color_idx st1) of
              Inl e \<Rightarrow> Raised e st1 w
            | Inr c \<Rightarrow>
                (let st2 = st1\<lparr>color := c\<rparr>
                 in case send_frame cfg h st2 w of
                      Inl e \<Rightarrow> Raised e st2 w
                    | Inr w' \<Rightarrow> Returned st2 w'))
      else if button = 2 then
        (case run_color_picker h (color_picker cfg) of
           Inl e \<Rightarrow> Raised e st w
         | Inr ls \<Rightarrow> pick_colors cfg h ls st w)
      else if button = 3 then
        (let st1 = st\<lparr>color := ''000000''\<rparr>
         in case send_frame cfg h st1 w of
              Inl e \<Rightarrow> Raised e st1 w
            | Inr w' \<Rightarrow> Returned (st1\<lparr>color := COLOR_GOOD h\<rparr>) w')
      else if button = 4 then
        (if leds st < leds_total cfg then
           (let st1 = st\<lparr>leds := leds st + 1\<rparr>
            in case send_frame cfg h st1 w of
                 Inl e \<Rightarrow> Raised e st1 w
               | Inr w' \<Rightarrow> Returned st1 w')
         else Returned st w)
      else if button = 5 then
        (if leds st > 0 then
           (let st1 = st\<lparr>leds := leds st - 1\<rparr>
            in case send_frame cfg h st1 w of
                 Inl e \<Rightarrow> Raised e st1 w
               | Inr w' \<Rightarrow> Returned st1 w')
         else Returned st w)
      else Returned st w)"

text \<open>\<^verbatim>\<open>on_click\<close>: the chain, then \<^verbatim>\<open>_store_state\<close> when the chain has not raised.\<close>

definition on_click :: "config \<Rightarrow> host \<Rightarrow> int \<Rightarrow> state \<Rightarrow> world \<Rightarrow> outcome" where
  "on_click cfg h button st w =
     (case click_branch cfg h button st w of
        Raised e st' w' \<Rightarrow> Raised e st' w'
      | Returned st' w' \<Rightarrow> Returned st' (store_state st' w'))"

text \<open>
  The host delivers the clicks one at a time: what a click leaves behind, whether it returned
  or raised, is what the next click starts from.
\<close>

fun clicks :: "config \<Rightarrow> host \<Rightarrow> int list \<Rightarrow> state \<Rightarrow> world \<Rightarrow> state \<times> world" where
  "clicks cfg h [] st w = (st, w)"
| "clicks cfg h (b # bs) st w =
     clicks cfg h bs (state_of (on_click cfg h b st w)) (world_of (on_click cfg h b st w))"

subsection \<open>\<^verbatim>\<open>post_config_hook\<close>\<close>

text \<open>
  \<^verbatim>\<open>_get_socket\<close> passes \<^verbatim>\<open>"".encode\<close>, a method and not bytes, to \<^verbatim>\<open>sendto\<close>: that is a
  \<^verbatim>\<open>TypeError\<close>, which is not a \<^verbatim>\<open>gaierror\<close>, so the second handler logs it.
\<close>

definition get_socket :: "world \<Rightarrow> world" where
  "get_socket w = py3_log_add ''Socket error: '' (Some TypeError) LOG_ERROR w"

text \<open>
  \<^verbatim>\<open>not x\<close> on what \<^verbatim>\<open>storage_get\<close> returns: true of \<^verbatim>\<open>None\<close>, of the integer \<open>0\<close> and of
  the empty string.
\<close>

definition falsy_int :: "int option \<Rightarrow> bool" where
  "falsy_int v = (case v of None \<Rightarrow> True | Some n \<Rightarrow> n = 0)"

definition falsy_str :: "string option \<Rightarrow> bool" where
  "falsy_str v = (case v of None \<Rightarrow> True | Some s \<Rightarrow> s = [])"

definition post_config_hook :: "config \<Rightarrow> host \<Rightarrow> world \<Rightarrow> state \<times> world" where
  "post_config_hook cfg h w =
     (let l = stored_leds (py3_storage w);
          c = stored_color (py3_storage w);
          i = stored_color_idx (py3_storage w);
          w1 = (if falsy_int l
                then py3_log_add ''Storage empty, setting initial values'' None LOG_WARNING w
                else w)
      in (\<lparr>leds = (if falsy_int l then 23 else the l),
           color = (if falsy_str c then COLOR_GOOD h else the c),
           color_idx = (if falsy_int i then 0 else the i)\<rparr>,
          get_socket w1))"

section \<open>The frame encoder: layout of a frame\<close>

subsection \<open>Blocks of a concatenation\<close>

lemma block_of_concat:
  "\<forall>b \<in> set bs. length b = k \<Longrightarrow> n < length bs \<Longrightarrow>
     take k (drop (k * n) (concat bs)) = bs ! n"
proof (induction bs arbitrary: n)
  case Nil
  then show ?case by simp
next
  case (Cons b bs)
  show ?case
  proof (cases n)
    case 0
    with Cons.prems show ?thesis by simp
  next
    case (Suc m)
    with Cons.prems have "take k (drop (k * m) (concat bs)) = bs ! m"
      by (intro Cons.IH) auto
    with Suc Cons.prems show ?thesis by (simp add: add.commute)
  qed
qed

lemma length_concat_const:
  "\<forall>b \<in> set bs. length b = k \<Longrightarrow> length (concat bs) = k * length bs"
  by (induction bs) auto

lemma length_py_range: "length (py_range t) = nat t"
  by (simp add: py_range_def)

lemma nth_py_range: "n < nat t \<Longrightarrow> py_range t ! n = int n"
  by (simp add: py_range_def)

subsection \<open>The loop of \<^verbatim>\<open>default\<close> and \<^verbatim>\<open>center\<close>\<close>

lemma fill_segment_eq:
  "fill_segment s k c ns fr =
     fr @ concat (map (\<lambda>n. if s \<le> n \<and> n < s + k then c else ''000000'') ns)"
  by (induction ns arbitrary: fr) auto

lemma segment_blocks:
  assumes "length c = 6" and "n < nat t"
  shows "take 6 (drop (length fr + 6 * n) (fill_segment s k c (py_range t) fr)) =
         (if s \<le> int n \<and> int n < s + k then c else ''000000'')"
proof -
  let ?bs = "map (\<lambda>n. if s \<le> n \<and> n < s + k then c else ''000000'') (py_range t)"
  have len: "\<forall>b \<in> set ?bs. length b = 6" using assms(1) by auto
  have n: "n < length ?bs" using assms(2) by (simp add: length_py_range)
  have "take 6 (drop (6 * n) (concat ?bs)) = ?bs ! n"
    using len n by (rule block_of_concat)
  also have "\<dots> = (if s \<le> int n \<and> int n < s + k then c else ''000000'')"
    using assms(2) by (simp add: length_py_range nth_py_range)
  finally show ?thesis by (simp add: fill_segment_eq)
qed

lemma segment_length:
  assumes "length c = 6"
  shows "length (fill_segment s k c (py_range t) fr) = length fr + 6 * nat t"
proof -
  let ?bs = "map (\<lambda>n. if s \<le> n \<and> n < s + k then c else ''000000'') (py_range t)"
  have "\<forall>b \<in> set ?bs. length b = 6" using assms by auto
  then have "length (concat ?bs) = 6 * length ?bs" by (rule length_concat_const)
  then show ?thesis by (simp add: fill_segment_eq length_py_range)
qed

lemma prefix_blocks:
  assumes "0 \<le> k" and "k \<le> t"
  shows "map (\<lambda>n. if 0 \<le> n \<and> n < 0 + k then c else z) (py_range t) =
         replicate (nat k) c @ replicate (nat (t - k)) z"
proof (rule nth_equalityI)
  show "length (map (\<lambda>n. if 0 \<le> n \<and> n < 0 + k then c else z) (py_range t)) =
        length (replicate (nat k) c @ replicate (nat (t - k)) z)"
    using assms by (simp add: length_py_range)
next
  fix i
  assume "i < length (map (\<lambda>n. if 0 \<le> n \<and> n < 0 + k then c else z) (py_range t))"
  then have "i < nat t" by (simp add: length_py_range)
  then show "map (\<lambda>n. if 0 \<le> n \<and> n < 0 + k then c else z) (py_range t) ! i =
             (replicate (nat k) c @ replicate (nat (t - k)) z) ! i"
    using assms by (auto simp add: length_py_range nth_py_range nth_append)
qed

text \<open>
  C1. In mode \<^verbatim>\<open>default\<close>, for \<open>0 \<le> k \<le> t\<close> lit LEDs out of \<open>t\<close> and a colour \<open>c\<close> of six
  characters (six hex digits in particular), \<^verbatim>\<open>_frame\<close> returns a frame: the header, then
  \<open>k\<close> blocks \<open>c\<close>, then \<open>t - k\<close> blocks \<^verbatim>\<open>000000\<close>. Its length is that of the header plus
  \<open>6 * t\<close>, and the block of LED \<open>n\<close> is \<open>c\<close> for \<open>n < k\<close> and \<^verbatim>\<open>000000\<close> after that.
\<close>

theorem frame_default_blocks:
  assumes "0 \<le> k" and "k \<le> t" and "length c = 6"
  shows "\<exists>f. frame ''default'' p k t c = Inr (Some f)
           \<and> f = header p @ concat (replicate (nat k) c)
                    @ concat (replicate (nat (t - k)) ''000000'')
           \<and> length f = length (header p) + 6 * nat t
           \<and> (\<forall>n < nat t.
                 take 6 (drop (length (header p) + 6 * n) f) =
                   (if int n < k then c else ''000000''))"
proof -
  let ?f = "fill_segment 0 k c (py_range t) (header p)"
  have "frame ''default'' p k t c = Inr (Some ?f)"
    by (simp add: frame_def frame_start_def)
  moreover have "?f = header p @ concat (replicate (nat k) c)
                    @ concat (replicate (nat (t - k)) ''000000'')"
    unfolding fill_segment_eq prefix_blocks [OF assms(1,2)] by simp
  moreover have "length ?f = length (header p) + 6 * nat t"
    using assms(3) by (rule segment_length)
  moreover have "\<forall>n < nat t.
      take 6 (drop (length (header p) + 6 * n) ?f) = (if int n < k then c else ''000000'')"
    using assms(3) by (simp add: segment_blocks)
  ultimately show ?thesis by blast
qed

theorem frame_default_blocks_witness:
  "frame ''default'' ''drgb'' 1 2 ''68D74C'' = Inr (Some ''02FF68D74C000000'')
   \<and> length ''02FF68D74C000000'' = length (header ''drgb'') + 6 * nat 2
   \<and> take 6 (drop (length (header ''drgb'') + 6 * 0) ''02FF68D74C000000'') = ''68D74C''
   \<and> take 6 (drop (length (header ''drgb'') + 6 * 1) ''02FF68D74C000000'') = ''000000''"
proof -
  have ev: "frame ''default'' ''drgb'' 1 2 ''68D74C'' = Inr (Some ''02FF68D74C000000'')"
    by (simp add: frame_def frame_start_def header_def py_range_def upto_rec1)
  have a: "(0::int) \<le> 1" "(1::int) \<le> 2" "length ''68D74C'' = 6" by simp_all
  from frame_default_blocks [OF a, of "''drgb''"]
  obtain f where f: "frame ''default'' ''drgb'' 1 2 ''68D74C'' = Inr (Some f)"
      "length f = length (header ''drgb'') + 6 * nat 2"
      "\<forall>n < nat 2. take 6 (drop (length (header ''drgb'') + 6 * n) f) =
          (if int n < 1 then ''68D74C'' else ''000000'')"
    by blast
  from f(1) ev have eq: "f = ''02FF68D74C000000''" by simp
  have b0: "take 6 (drop (length (header ''drgb'') + 6 * 0) f) = ''68D74C''"
    using f(3) [rule_format, of 0] by simp
  have b1: "take 6 (drop (length (header ''drgb'') + 6 * 1) f) = ''000000''"
    using f(3) [rule_format, of 1] by simp
  show ?thesis using ev f(2) b0 b1 unfolding eq by blast
qed

section \<open>Division in double precision\<close>

subsection \<open>\<^verbatim>\<open>int(a / b)\<close> is exact for a dividend up to \<open>2 ^ 53\<close>\<close>

text \<open>
  Rounding the quotient to a double moves it by less than the distance to the next integer
  as long as the dividend is at most \<open>2 ^ 53\<close>: the rounded mantissa would reach the next
  integer only if the divisor were at least \<open>2 ^ (53 - e)\<close>, and then the dividend, at
  least \<open>2 ^ e\<close> times the divisor, would be above \<open>2 ^ 53\<close>.
\<close>

lemma round_half_even_cases:
  "round_half_even p r = p div r \<or>
   (round_half_even p r = p div r + 1 \<and> r \<le> 2 * (p mod r))"
  by (auto simp add: round_half_even_def Let_def)

lemma carry_forces_large_divisor:
  fixes a b q S :: int
  assumes b: "1 \<le> b" and S: "1 \<le> S"
    and q: "q = a div b"
    and half: "b \<le> 2 * ((a * S) mod b)"
    and carry: "\<not> (a * S) div b + 1 < (q + 1) * S"
  shows "2 * S * (b - a mod b) \<le> b"
proof -
  define k where "k = (a * S) div b"
  define r where "r = (a * S) mod b"
  define rho where "rho = a mod b"
  have bpos: "0 < b" using b by simp
  have Spos: "0 < S" using S by simp
  have aq: "a = q * b + rho" unfolding q rho_def by simp
  have kr: "a * S = k * b + r" unfolding k_def r_def by simp
  have "a * S div (b * S) = a * S div b div S"
    using Spos by (intro zdiv_zmult2_eq) simp
  moreover have "a * S div (b * S) = a div b" using Spos by simp
  ultimately have kq: "k div S = q" by (simp add: q k_def)
  have "S * (k div S) + k mod S = k" by simp
  then have "S * q + k mod S = k" unfolding kq .
  moreover have "k mod S < S" using Spos by simp
  ultimately have "k < S * q + S" by linarith
  then have "k < (q + 1) * S" by (simp add: algebra_simps)
  with carry have k: "k = (q + 1) * S - 1"
    unfolding k_def by linarith
  have "a * S = q * b * S + rho * S" by (subst aq) (simp add: algebra_simps)
  with kr k have "r = rho * S - (S - 1) * b" by (simp add: algebra_simps)
  with half show ?thesis unfolding r_def [symmetric] rho_def [symmetric]
    by (simp add: algebra_simps)
qed

lemma scaled_quotient:
  fixes a b S :: int
  assumes "1 \<le> b" and "1 \<le> S"
  shows "a * S div b div S = a div b"
proof -
  have "a * S div (b * S) = a * S div b div S"
    using assms by (intro zdiv_zmult2_eq) simp
  moreover have "a * S div (b * S) = a div b" using assms by simp
  ultimately show ?thesis by simp
qed

lemma div_between:
  fixes x q S :: int
  assumes "0 < S" and "q * S \<le> x" and "x < (q + 1) * S"
  shows "x div S = q"
proof -
  have "x = S * q + (x - q * S)" by (simp add: algebra_simps)
  moreover have "0 \<le> x - q * S" using assms(2) by simp
  moreover have "x - q * S < S" using assms(3) by (simp add: algebra_simps)
  ultimately show ?thesis by (rule int_div_pos_eq)
qed

lemma quotient_times_le:
  fixes a b :: int
  assumes "0 < b"
  shows "(a div b) * b \<le> a"
proof -
  have "a = (a div b) * b + a mod b" by simp
  moreover have "0 \<le> a mod b" using assms by simp
  ultimately show ?thesis by linarith
qed

lemma quotient_le:
  fixes a b :: int
  assumes "0 \<le> a" and "1 \<le> b"
  shows "a div b \<le> a"
proof -
  have "0 \<le> a div b" using assms by (simp add: pos_imp_zdiv_nonneg_iff)
  then have "(a div b) * 1 \<le> (a div b) * b" using assms(2) by (intro mult_left_mono)
  moreover have "(a div b) * b \<le> a" using assms(2) by (intro quotient_times_le) simp
  ultimately show ?thesis by simp
qed

lemma no_carry:
  fixes a b :: int
  assumes a: "0 \<le> a" "a \<le> 2 ^ 53" and b: "1 \<le> b" and nh: "\<not> 2 * a < b"
    and e: "e = bitlen (a div b) - 1" and e52: "e \<le> 52"
    and half: "b \<le> 2 * ((a * 2 ^ nat (52 - e)) mod b)"
  shows "(a * 2 ^ nat (52 - e)) div b + 1 < (a div b + 1) * 2 ^ nat (52 - e)"
proof (rule ccontr)
  define S :: int where "S = 2 ^ nat (52 - e)"
  define q where "q = a div b"
  define rho where "rho = a mod b"
  assume "\<not> (a * 2 ^ nat (52 - e)) div b + 1 < (a div b + 1) * 2 ^ nat (52 - e)"
  then have carry: "\<not> (a * S) div b + 1 < (q + 1) * S" by (simp add: S_def q_def)
  have S1: "1 \<le> S" unfolding S_def by simp
  have half': "b \<le> 2 * ((a * S) mod b)" using half by (simp add: S_def)
  have h: "2 * S * (b - rho) \<le> b"
    unfolding rho_def using b S1 q_def half' carry by (rule carry_forces_large_divisor)
  have bpos: "0 < b" using b by simp
  have rho: "0 \<le> rho" "rho < b" unfolding rho_def using bpos by simp_all
  have aq: "a = q * b + rho" unfolding q_def rho_def by simp
  have q0: "0 \<le> q" unfolding q_def using a(1) bpos by (simp add: pos_imp_zdiv_nonneg_iff)
  have "2 * S * 1 \<le> 2 * S * (b - rho)" using S1 rho by (intro mult_left_mono) simp_all
  with h have b2S: "2 * S \<le> b" by simp
  show False
  proof (cases "q = 0")
    case True
    then have "bitlen q = 0" by simp
    then have "e = - 1" using e by (simp add: q_def)
    then have S: "S = 2 ^ 53" by (simp add: S_def)
    from True aq have "rho = a" by simp
    with h S have "2 * 2 ^ 53 * (b - a) \<le> b" by simp
    moreover have "a < b" using rho \<open>rho = a\<close> by simp
    ultimately show False using a(2) nh by simp
  next
    case False
    with q0 have q1: "0 < q" by simp
    then have "2 ^ nat (bitlen q - 1) \<le> q" using bitlen_bounds [of q] by simp
    then have pe: "2 ^ nat e \<le> q" using e by (simp add: q_def)
    have "1 \<le> bitlen q" using q1 bitlen_nonneg [of q] bitlen_eq_zero_iff [of q] by linarith
    then have e0: "0 \<le> e" using e by (simp add: q_def)
    have "S * 2 ^ nat e = (2::int) ^ (nat (52 - e) + nat e)"
      unfolding S_def by (simp add: power_add)
    also have "nat (52 - e) + nat e = 52" using e0 e52 by simp
    finally have Se: "S * 2 ^ nat e = 2 ^ 52" .
    have rho_pos: "0 < rho"
    proof (rule ccontr)
      assume "\<not> 0 < rho"
      with rho have "rho = 0" by simp
      with h have "2 * S * b \<le> b" by simp
      moreover have "2 * b \<le> 2 * S * b" using S1 bpos by simp
      ultimately show False using bpos by linarith
    qed
    have "(2::int) ^ 53 = 2 * (S * 2 ^ nat e)" unfolding Se by simp
    also have "\<dots> = (2 * S) * 2 ^ nat e" by simp
    also have "\<dots> \<le> b * 2 ^ nat e" using b2S by (intro mult_right_mono) simp_all
    also have "\<dots> \<le> b * q" using pe bpos by (intro mult_left_mono) simp_all
    also have "\<dots> < a" using aq rho_pos by (simp add: mult.commute)
    finally show False using a(2) by simp
  qed
qed

lemma double_trunc_exact:
  fixes a b :: int
  assumes a: "0 \<le> a" "a \<le> 2 ^ 53" and b: "1 \<le> b"
  shows "double_trunc a b = a div b"
proof (cases "2 * a < b")
  case True
  then have "a div b = 0" using a(1) by (intro div_pos_pos_trivial) simp_all
  with True show ?thesis by (simp add: double_trunc_def)
next
  case nh: False
  define q where "q = a div b"
  define e where "e = bitlen q - 1"
  have bpos: "0 < b" using b by simp
  have q0: "0 \<le> q" unfolding q_def using a(1) bpos by (simp add: pos_imp_zdiv_nonneg_iff)
  have qb: "q * b \<le> a" unfolding q_def using bpos by (rule quotient_times_le)
  have qa: "q \<le> a" unfolding q_def using a(1) b by (rule quotient_le)
  show ?thesis
  proof (cases "q = 2 ^ 53")
    case True
    with qa a(2) have a53: "a = 2 ^ 53" by simp
    have "b = 1"
    proof (rule ccontr)
      assume "b \<noteq> 1"
      with b have "2 \<le> b" by simp
      then have "q * 2 \<le> q * b" using q0 by (intro mult_left_mono)
      with qb True a53 show False by simp
    qed
    have "bitlen (2 ^ 53 :: int) = 54"
      using bitlen_twopow_add_eq [of 0 53] by simp
    then show ?thesis
      unfolding double_trunc_def Let_def a53 \<open>b = 1\<close>
      by (simp add: round_half_even_def)
  next
    case False
    with qa a(2) have "q < 2 ^ 53" by simp
    then have "bitlen q \<le> 53" by (simp add: bitlen_le_iff_power)
    then have e52: "e \<le> 52" by (simp add: e_def)
    define S :: int where "S = 2 ^ nat (52 - e)"
    have S1: "1 \<le> S" unfolding S_def by simp
    define k where "k = a * S div b"
    have kq: "k div S = q" unfolding k_def q_def using b S1 by (rule scaled_quotient)
    have dt: "double_trunc a b = round_half_even (a * S) b div S"
      using nh e52 by (simp add: double_trunc_def Let_def e_def q_def S_def)
    from round_half_even_cases [of "a * S" b]
    have "round_half_even (a * S) b div S = q"
    proof
      assume "round_half_even (a * S) b = a * S div b"
      then show ?thesis using kq by (simp add: k_def)
    next
      assume r: "round_half_even (a * S) b = a * S div b + 1 \<and> b \<le> 2 * (a * S mod b)"
      then have "b \<le> 2 * ((a * 2 ^ nat (52 - e)) mod b)" by (simp add: S_def)
      with a b nh e52 have "(a * 2 ^ nat (52 - e)) div b + 1 < (a div b + 1) * 2 ^ nat (52 - e)"
        by (intro no_carry) (simp_all add: e_def q_def)
      then have up: "k + 1 < (q + 1) * S" by (simp add: k_def q_def S_def)
      have "S * (k div S) + k mod S = k" by simp
      then have "S * q + k mod S = k" unfolding kq .
      moreover have "0 \<le> k mod S" using S1 by simp
      ultimately have "q * S \<le> k + 1" by (simp add: mult.commute)
      with up have "(k + 1) div S = q" using S1 by (intro div_between) simp_all
      with r show ?thesis by (simp add: k_def)
    qed
    with dt show ?thesis by (simp add: q_def)
  qed
qed

lemma int_truediv_exact:
  assumes "0 \<le> a" and "a \<le> 2 ^ 53" and "1 \<le> b"
  shows "int_truediv a b = Inr (a div b)"
proof -
  have "double_trunc \<bar>a\<bar> \<bar>b\<bar> = a div b"
    using assms double_trunc_exact [of a b] by simp
  moreover have "a div b < 2 ^ 1024"
  proof -
    have "a div b \<le> a" using assms(1,3) by (rule quotient_le)
    also have "\<dots> \<le> 2 ^ 53" by (rule assms)
    also have "(2::int) ^ 53 < 2 ^ 1024" by (rule power_strict_increasing) simp_all
    finally show ?thesis .
  qed
  ultimately show ?thesis using assms by (simp add: int_truediv_def)
qed

lemma int_truediv_half:
  assumes "\<bar>d\<bar> \<le> 2 ^ 53"
  shows "int_truediv d 2 = Inr (if d < 0 then - (\<bar>d\<bar> div 2) else d div 2)"
proof -
  have "double_trunc \<bar>d\<bar> 2 = \<bar>d\<bar> div 2"
    using assms by (intro double_trunc_exact) simp_all
  moreover have "\<bar>d\<bar> div 2 < 2 ^ 1024"
  proof -
    have "\<bar>d\<bar> div 2 \<le> \<bar>d\<bar>" by simp
    also have "\<dots> \<le> 2 ^ 53" by (rule assms)
    also have "(2::int) ^ 53 < 2 ^ 1024" by (rule power_strict_increasing) simp_all
    finally show ?thesis .
  qed
  ultimately show ?thesis by (simp add: int_truediv_def)
qed

section \<open>The mode \<^verbatim>\<open>center\<close>\<close>

lemma center_start_exact:
  assumes "\<bar>t - k\<bar> \<le> 2 ^ 53"
  shows "frame_start ''center'' k t = Inr (if t < k then - ((k - t) div 2) else (t - k) div 2)"
proof -
  have "\<bar>t - k\<bar> = (if t < k then k - t else t - k)" by simp
  then show ?thesis
    using int_truediv_half [OF assms] by (simp add: frame_start_def)
qed

text \<open>
  For the LED indices of a frame, the segment that starts at the truncated quotient and the
  one that starts at the floor are the same: they differ only when \<open>t < k\<close>, and
  then both cover every index below \<open>t\<close>.
\<close>

lemma lit_floor_or_trunc:
  fixes k t n :: int
  assumes "0 \<le> n" and "n < t"
  shows "((if t < k then - ((k - t) div 2) else (t - k) div 2) \<le> n
            \<and> n < (if t < k then - ((k - t) div 2) else (t - k) div 2) + k)
         \<longleftrightarrow> ((t - k) div 2 \<le> n \<and> n < (t - k) div 2 + k)"
proof (cases "t < k")
  case False
  then show ?thesis by simp
next
  case True
  define a where "a = (k - t) div 2"
  define b where "b = (t - k) div 2"
  have a: "2 * a \<le> k - t" "0 \<le> a" using True unfolding a_def by simp_all
  have b: "t - k - 1 \<le> 2 * b" "b \<le> 0" using True unfolding b_def by linarith+
  have "- a \<le> n \<and> n < - a + k" using a assms True by linarith
  moreover have "b \<le> n \<and> n < b + k" using b assms True by linarith
  ultimately show ?thesis using True by (simp add: a_def b_def)
qed

text \<open>
  C2, as amended. For \<open>k\<close> lit LEDs out of \<open>t\<close> with \<open>\<bar>t - k\<bar> \<le> 2 ^ 53\<close> (where the
  double quotient is exact), the variable \<^verbatim>\<open>start\<close> of mode \<^verbatim>\<open>center\<close> is \<open>(t - k) / 2\<close>
  truncated towards zero: the floor when \<open>k \<le> t\<close>, and \<open>- ((k - t) div 2)\<close> when
  \<open>t < k\<close>. \<^verbatim>\<open>_frame\<close> returns a frame in which LED \<open>n < t\<close> has the colour exactly when
  \<open>start \<le> n < start + k\<close>, and this is the same set of LEDs as with the floor in the place
  of \<^verbatim>\<open>start\<close>.
\<close>

theorem frame_center_segment:
  assumes "\<bar>t - k\<bar> \<le> 2 ^ 53" and "length c = 6"
  shows "frame_start ''center'' k t =
           Inr (if t < k then - ((k - t) div 2) else (t - k) div 2)
         \<and> (\<exists>f. frame ''center'' p k t c = Inr (Some f)
               \<and> length f = length (header p) + 6 * nat t
               \<and> (\<forall>n < nat t.
                     take 6 (drop (length (header p) + 6 * n) f) =
                       (if (if t < k then - ((k - t) div 2) else (t - k) div 2) \<le> int n
                           \<and> int n < (if t < k then - ((k - t) div 2) else (t - k) div 2) + k
                        then c else ''000000''))
               \<and> (\<forall>n < nat t.
                     take 6 (drop (length (header p) + 6 * n) f) =
                       (if (t - k) div 2 \<le> int n \<and> int n < (t - k) div 2 + k
                        then c else ''000000'')))"
proof -
  define s where "s = (if t < k then - ((k - t) div 2) else (t - k) div 2)"
  let ?f = "fill_segment s k c (py_range t) (header p)"
  have st: "frame_start ''center'' k t = Inr s"
    unfolding s_def using assms(1) by (rule center_start_exact)
  then have fr: "frame ''center'' p k t c = Inr (Some ?f)"
    by (simp add: frame_def)
  have len: "length ?f = length (header p) + 6 * nat t"
    using assms(2) by (rule segment_length)
  have blk: "\<forall>n < nat t. take 6 (drop (length (header p) + 6 * n) ?f) =
      (if s \<le> int n \<and> int n < s + k then c else ''000000'')"
    using assms(2) by (simp add: segment_blocks)
  have "\<forall>n < nat t. (s \<le> int n \<and> int n < s + k)
           \<longleftrightarrow> ((t - k) div 2 \<le> int n \<and> int n < (t - k) div 2 + k)"
    unfolding s_def by (intro allI impI lit_floor_or_trunc) simp_all
  with blk have blk': "\<forall>n < nat t. take 6 (drop (length (header p) + 6 * n) ?f) =
      (if (t - k) div 2 \<le> int n \<and> int n < (t - k) div 2 + k then c else ''000000'')"
    by simp
  show ?thesis
    using st fr len blk blk' unfolding s_def by blast
qed

theorem frame_center_segment_witness:
  "\<bar>100 - 24 :: int\<bar> \<le> 2 ^ 53 \<and> \<bar>2 - 3 :: int\<bar> \<le> 2 ^ 53 \<and> length ''68D74C'' = 6
   \<and> frame_start ''center'' 24 100 = Inr 38
   \<and> frame_start ''center'' 3 2 = Inr 0
   \<and> (\<exists>f. frame ''center'' ''drgb'' 24 100 ''68D74C'' = Inr (Some f)
          \<and> length f = 604
          \<and> take 6 (drop (4 + 6 * 37) f) = ''000000''
          \<and> take 6 (drop (4 + 6 * 38) f) = ''68D74C''
          \<and> take 6 (drop (4 + 6 * 61) f) = ''68D74C''
          \<and> take 6 (drop (4 + 6 * 62) f) = ''000000'')"
proof -
  have a: "\<bar>100 - 24 :: int\<bar> \<le> 2 ^ 53" "length ''68D74C'' = 6" by simp_all
  have b: "\<bar>2 - 3 :: int\<bar> \<le> 2 ^ 53" by simp
  have h: "length (header ''drgb'') = 4" by (simp add: header_def)
  from frame_center_segment [OF b a(2), of "''rgb''"]
  have st': "frame_start ''center'' 3 2 = Inr 0" by simp
  from frame_center_segment [OF a, of "''drgb''"]
  obtain f where st: "frame_start ''center'' 24 100 = Inr 38"
    and f: "frame ''center'' ''drgb'' 24 100 ''68D74C'' = Inr (Some f)"
      "length f = length (header ''drgb'') + 6 * nat 100"
      "\<forall>n < nat 100. take 6 (drop (length (header ''drgb'') + 6 * n) f) =
          (if (100 - 24) div 2 \<le> int n \<and> int n < (100 - 24) div 2 + 24
           then ''68D74C'' else ''000000'')"
    by auto
  have "take 6 (drop (4 + 6 * 37) f) = ''000000''"
    using f(3) [rule_format, of 37] by (simp add: h)
  moreover have "take 6 (drop (4 + 6 * 38) f) = ''68D74C''"
    using f(3) [rule_format, of 38] by (simp add: h)
  moreover have "take 6 (drop (4 + 6 * 61) f) = ''68D74C''"
    using f(3) [rule_format, of 61] by (simp add: h)
  moreover have "take 6 (drop (4 + 6 * 62) f) = ''000000''"
    using f(3) [rule_format, of 62] by (simp add: h)
  moreover have "length f = 604" using f(2) by (simp add: h)
  ultimately show ?thesis using a b st st' f(1) by blast
qed

text \<open>
  The claim as it was stated fails: with 3 lit LEDs out of 2, \<^verbatim>\<open>int(-0.5)\<close> is \<open>0\<close>, and
  the floor is \<open>- 1\<close>; and with \<open>2 ^ 1025\<close> lit LEDs out of none, the division raises.
\<close>

theorem frame_center_floor_counterexample:
  "frame_start ''center'' 3 2 = Inr 0 \<and> (2 - 3 :: int) div 2 = - 1
   \<and> frame ''center'' ''rgb'' (2 ^ 1025) 0 ''68D74C'' = Inl OverflowError"
proof -
  have "frame_start ''center'' 3 2 = Inr 0" by code_simp
  moreover have "(2 - 3 :: int) div 2 = - 1" by simp
  moreover have "frame ''center'' ''rgb'' (2 ^ 1025) 0 ''68D74C'' = Inl OverflowError"
    by code_simp
  ultimately show ?thesis by blast
qed

section \<open>The header\<close>

text \<open>
  The header is the start of the frame and nothing else depends on the protocol: a frame is
  the header followed by the frame the encoder builds for an empty header.
\<close>

lemma fill_distribute_prefix:
  "fill_distribute m c ns fr =
     (case fill_distribute m c ns [] of Inl e \<Rightarrow> Inl e | Inr b \<Rightarrow> Inr (fr @ b))"
proof (induction ns arbitrary: fr)
  case Nil
  then show ?case by simp
next
  case (Cons n ns)
  show ?case
  proof (cases "m = 0")
    case True
    then show ?thesis by simp
  next
    case False
    define x where "x = (if n mod m = 1 \<or> m < 2 then c else ''000000'')"
    have "fill_distribute m c (n # ns) fr = fill_distribute m c ns (fr @ x)"
      using False by (simp add: x_def)
    also have "\<dots> = (case fill_distribute m c ns [] of
                        Inl e \<Rightarrow> Inl e | Inr b \<Rightarrow> Inr ((fr @ x) @ b))"
      by (rule Cons.IH)
    finally have l: "fill_distribute m c (n # ns) fr =
        (case fill_distribute m c ns [] of Inl e \<Rightarrow> Inl e | Inr b \<Rightarrow> Inr (fr @ x @ b))"
      by (simp only: append_assoc)
    have "fill_distribute m c (n # ns) [] = fill_distribute m c ns x"
      using False by (simp add: x_def)
    also have "\<dots> = (case fill_distribute m c ns [] of
                        Inl e \<Rightarrow> Inl e | Inr b \<Rightarrow> Inr (x @ b))"
      by (rule Cons.IH)
    finally have r: "fill_distribute m c (n # ns) [] =
        (case fill_distribute m c ns [] of Inl e \<Rightarrow> Inl e | Inr b \<Rightarrow> Inr (x @ b))" .
    show ?thesis unfolding l r by (simp split: sum.splits)
  qed
qed

lemma fill_segment_prefix:
  "fill_segment s k c ns fr = fr @ fill_segment s k c ns []"
  by (simp add: fill_segment_eq)

lemma frame_prefix:
  "frame md p k t c =
     (case frame md [] k t c of
        Inl e \<Rightarrow> Inl e
      | Inr None \<Rightarrow> Inr None
      | Inr (Some b) \<Rightarrow> Inr (Some (header p @ b)))"
proof -
  have h0: "header [] = []" by (simp add: header_def)
  show ?thesis
    unfolding frame_def h0
    using fill_distribute_prefix [of _ c "py_range t" "header p"]
          fill_segment_prefix [of _ k c "py_range t" "header p"]
    by (auto split: sum.splits option.splits)
qed

lemma header_drgb: "header ''drgb'' = ''02FF''"
  by (simp add: header_def)

lemma header_other: "p \<noteq> ''drgb'' \<Longrightarrow> header p = []"
  by (simp add: header_def)

lemma fromhex_header: "fromhex ''02FF'' = Inr [0x02, 0xFF]"
  by (simp add: hex_digit_def isspace_def)

text \<open>
  C7. Whatever the mode, the colour and the number of lit LEDs, a frame of the protocol
  \<^verbatim>\<open>drgb\<close> begins with the hex digits \<^verbatim>\<open>02FF\<close>, which \<^verbatim>\<open>bytes.fromhex\<close> decodes to the
  bytes \<open>0x02\<close>, \<open>0xFF\<close>. Any other protocol has the empty header: its frame \<open>b\<close> starts
  with the body, and it is what follows \<^verbatim>\<open>02FF\<close> in the \<^verbatim>\<open>drgb\<close> frame of the same arguments.
\<close>

theorem frame_header:
  "header ''drgb'' = ''02FF''
   \<and> fromhex (header ''drgb'') = Inr [0x02, 0xFF]
   \<and> (frame md ''drgb'' k t c = Inr (Some f) \<longrightarrow> take 4 f = ''02FF'')
   \<and> (p \<noteq> ''drgb'' \<longrightarrow> header p = [])
   \<and> (p \<noteq> ''drgb'' \<longrightarrow> frame md p k t c = Inr (Some b) \<longrightarrow>
         frame md ''drgb'' k t c = Inr (Some (''02FF'' @ b)))"
proof -
  have 1: "take 4 f = ''02FF''" if "frame md ''drgb'' k t c = Inr (Some f)"
    using that frame_prefix [of md "''drgb''" k t c]
    by (auto simp add: header_drgb split: sum.splits option.splits)
  have 2: "frame md ''drgb'' k t c = Inr (Some (''02FF'' @ b))"
    if "p \<noteq> ''drgb''" and "frame md p k t c = Inr (Some b)"
  proof -
    from that frame_prefix [of md p k t c]
    have "frame md [] k t c = Inr (Some b)"
      by (auto simp add: header_other split: sum.splits option.splits)
    then show ?thesis
      using frame_prefix [of md "''drgb''" k t c] by (simp add: header_drgb)
  qed
  have 0: "fromhex (header ''drgb'') = Inr [0x02, 0xFF]"
    unfolding header_drgb by (rule fromhex_header)
  show ?thesis
    using 0 1 2 header_drgb header_other by blast
qed

theorem frame_header_witness:
  "frame ''default'' ''drgb'' 1 2 ''68D74C'' = Inr (Some ''02FF68D74C000000'')
   \<and> take 4 ''02FF68D74C000000'' = ''02FF''
   \<and> ''rgb'' \<noteq> ''drgb'' \<and> header ''rgb'' = []
   \<and> frame ''default'' ''rgb'' 1 2 ''68D74C'' = Inr (Some ''68D74C000000'')"
proof -
  have ne: "''rgb'' \<noteq> ''drgb''" by simp
  have ev: "frame ''default'' ''rgb'' 1 2 ''68D74C'' = Inr (Some ''68D74C000000'')"
    by (simp add: frame_def frame_start_def header_def py_range_def upto_rec1)
  note t = frame_header [of "''default''" 1 2 "''68D74C''" "''02FF68D74C000000''" "''rgb''"
      "''68D74C000000''"]
  from t ne ev have d: "frame ''default'' ''drgb'' 1 2 ''68D74C'' = Inr (Some ''02FF68D74C000000'')"
    by simp
  with t have "take 4 ''02FF68D74C000000'' = ''02FF''" by blast
  moreover from t ne have "header ''rgb'' = []" by blast
  ultimately show ?thesis using d ne ev by blast
qed

section \<open>Sending when there is no frame\<close>

lemma frame_distribute_none:
  "k < 1 \<Longrightarrow> frame ''distribute'' p k t c = Inr None"
  by (simp add: frame_def frame_start_def)

lemma try_send_none:
  "try_send h None w =
     w\<lparr>py3_log := py3_log w @
          [\<lparr>msg = ''Failed to contact light: '', exn = Some TypeError, lvl = LOG_ERROR\<rparr>]\<rparr>"
  by (simp add: try_send_def py3_log_add_def)

text \<open>
  C8. In mode \<^verbatim>\<open>distribute\<close> with fewer than one lit LED the encoder returns no frame, and
  \<^verbatim>\<open>_send_frame\<close> returns without raising and without handing anything to the socket, as the
  claim says. The claim also says that this is not treated as an error. It is:
  \<^verbatim>\<open>_send_frame\<close> has no test for a missing frame, \<^verbatim>\<open>bytes.fromhex(None)\<close> raises
  \<^verbatim>\<open>TypeError\<close> inside the \<^verbatim>\<open>try\<close>, and the handler writes one entry of error severity to
  the log, as for a light that cannot be reached.
\<close>

theorem send_frame_no_frame:
  assumes "mode cfg = ''distribute''" and "leds st < 1"
  shows "frame (mode cfg) (proto cfg) (leds st) (leds_total cfg) (color st) = Inr None
         \<and> send_frame cfg h st w =
             Inr (w\<lparr>py3_log := py3_log w @
                    [\<lparr>msg = ''Failed to contact light: '', exn = Some TypeError,
                      lvl = LOG_ERROR\<rparr>]\<rparr>)
         \<and> (\<exists>w'. send_frame cfg h st w = Inr w' \<and> sent w' = sent w
                \<and> map lvl (py3_log w') = map lvl (py3_log w) @ [LOG_ERROR])"
proof -
  have n: "frame (mode cfg) (proto cfg) (leds st) (leds_total cfg) (color st) = Inr None"
    using assms by (simp add: frame_distribute_none)
  then have s: "send_frame cfg h st w =
      Inr (w\<lparr>py3_log := py3_log w @
             [\<lparr>msg = ''Failed to contact light: '', exn = Some TypeError,
               lvl = LOG_ERROR\<rparr>]\<rparr>)"
    by (simp add: send_frame_def try_send_none)
  then show ?thesis using n by simp
qed

theorem send_frame_no_frame_witness:
  "mode (default_config\<lparr>mode := ''distribute''\<rparr>) = ''distribute''
   \<and> leds \<lparr>leds = 0, color = ''68D74C'', color_idx = 0\<rparr> < 1
   \<and> send_frame (default_config\<lparr>mode := ''distribute''\<rparr>) quiet_host
        \<lparr>leds = 0, color = ''68D74C'', color_idx = 0\<rparr> empty_world =
      Inr (empty_world\<lparr>py3_log := py3_log empty_world @
             [\<lparr>msg = ''Failed to contact light: '', exn = Some TypeError,
               lvl = LOG_ERROR\<rparr>]\<rparr>)"
proof -
  have a: "mode (default_config\<lparr>mode := ''distribute''\<rparr>) = ''distribute''"
    "leds \<lparr>leds = 0, color = ''68D74C'', color_idx = 0\<rparr> < 1" by simp_all
  from send_frame_no_frame [OF a, of quiet_host empty_world] a show ?thesis by blast
qed

section \<open>Start-up\<close>

lemma stored_after_store:
  "py3_storage (store_state st w) =
     \<lparr>stored_leds = Some (leds st), stored_color = Some (color st),
      stored_color_idx = Some (color_idx st)\<rparr>"
  by (simp add: store_state_def)

text \<open>
  C10. At start-up a stored number of lit LEDs of \<open>0\<close> is treated as no stored number: the
  state and the log are those of an empty key, and the number becomes 23. Every stored
  number \<open>v \<ge> 1\<close> is restored as it is. So the state that \<^verbatim>\<open>_store_state\<close> wrote comes
  back with its number of lit LEDs unless that number was \<open>0\<close>.
\<close>

theorem post_config_hook_leds:
  "(stored_leds (py3_storage w) = Some 0 \<longrightarrow>
      leds (fst (post_config_hook cfg h w)) = 23
      \<and> fst (post_config_hook cfg h w) =
          fst (post_config_hook cfg h
                 (w\<lparr>py3_storage := (py3_storage w)\<lparr>stored_leds := None\<rparr>\<rparr>))
      \<and> py3_log (snd (post_config_hook cfg h w)) =
          py3_log (snd (post_config_hook cfg h
                 (w\<lparr>py3_storage := (py3_storage w)\<lparr>stored_leds := None\<rparr>\<rparr>))))
   \<and> (stored_leds (py3_storage w) = None \<longrightarrow> leds (fst (post_config_hook cfg h w)) = 23)
   \<and> (1 \<le> v \<longrightarrow> stored_leds (py3_storage w) = Some v \<longrightarrow>
         leds (fst (post_config_hook cfg h w)) = v)
   \<and> leds (fst (post_config_hook cfg h (store_state st w))) =
        (if leds st = 0 then 23 else leds st)"
  by (simp add: post_config_hook_def Let_def falsy_int_def get_socket_def py3_log_add_def
      store_state_def)

theorem post_config_hook_leds_witness:
  "stored_leds (py3_storage (store_state \<lparr>leds = 0, color = ''68D74C'', color_idx = 2\<rparr> empty_world)) = Some 0
   \<and> leds (fst (post_config_hook default_config quiet_host
        (store_state \<lparr>leds = 0, color = ''68D74C'', color_idx = 2\<rparr> empty_world))) = 23
   \<and> (1::int) \<le> 7
   \<and> stored_leds (py3_storage (store_state \<lparr>leds = 7, color = ''68D74C'', color_idx = 2\<rparr> empty_world)) = Some 7
   \<and> leds (fst (post_config_hook default_config quiet_host
        (store_state \<lparr>leds = 7, color = ''68D74C'', color_idx = 2\<rparr> empty_world))) = 7"
proof -
  let ?w0 = "store_state \<lparr>leds = 0, color = ''68D74C'', color_idx = 2\<rparr> empty_world"
  let ?w7 = "store_state \<lparr>leds = 7, color = ''68D74C'', color_idx = 2\<rparr> empty_world"
  have a: "stored_leds (py3_storage ?w0) = Some 0" by (simp add: store_state_def)
  have b: "(1::int) \<le> 7" "stored_leds (py3_storage ?w7) = Some 7"
    by (simp_all add: store_state_def)
  from post_config_hook_leds [of ?w0 default_config quiet_host 7] a
  have "leds (fst (post_config_hook default_config quiet_host ?w0)) = 23" by blast
  moreover from post_config_hook_leds [of ?w7 default_config quiet_host 7] b
  have "leds (fst (post_config_hook default_config quiet_host ?w7)) = 7" by blast
  ultimately show ?thesis using a b by blast
qed

section \<open>When the encoder returns a frame\<close>

text \<open>
  With at most \<open>2 ^ 53\<close> LEDs, of which between none and all are lit, \<^verbatim>\<open>_frame\<close> returns a
  frame in every mode, but for the bare \<^verbatim>\<open>return\<close> of mode \<^verbatim>\<open>distribute\<close> with no lit LED.
  In mode \<^verbatim>\<open>distribute\<close> with more lit LEDs than LEDs it raises.
\<close>

lemma fill_distribute_eq:
  "m \<noteq> 0 \<Longrightarrow> fill_distribute m c ns fr =
     Inr (fr @ concat (map (\<lambda>n. if n mod m = 1 \<or> m < 2 then c else ''000000'') ns))"
  by (induction ns arbitrary: fr) auto

lemma fill_distribute_zero:
  "ns \<noteq> [] \<Longrightarrow> fill_distribute 0 c ns fr = Inl ZeroDivisionError"
  by (cases ns) simp_all

lemma py_range_nonempty: "1 \<le> t \<Longrightarrow> py_range t \<noteq> []"
  by (simp add: py_range_def upto_rec1)

lemma frame_distribute_blocks:
  assumes "1 \<le> k" and "k \<le> t" and "t \<le> 2 ^ 53"
  shows "frame ''distribute'' p k t c =
           Inr (Some (header p @ concat (map (\<lambda>n. if n mod (t div k) = 1 \<or> t div k < 2
                                                 then c else ''000000'') (py_range t))))"
proof -
  have m: "int_truediv t k = Inr (t div k)"
    using assms by (intro int_truediv_exact) simp_all
  have "0 < k" using assms(1) by simp
  then have "0 < t div k" using assms(2) by (simp add: pos_imp_zdiv_pos_iff)
  then have "t div k \<noteq> 0" by simp
  then show ?thesis
    using assms(1) m by (simp add: frame_def frame_start_def fill_distribute_eq)
qed

lemma frame_distribute_raises:
  assumes "1 \<le> t" and "t < k" and "t \<le> 2 ^ 53"
  shows "frame ''distribute'' p k t c = Inl ZeroDivisionError"
proof -
  have "int_truediv t k = Inr (t div k)"
    using assms by (intro int_truediv_exact) simp_all
  moreover have "t div k = 0" using assms by simp
  ultimately show ?thesis
    using assms by (simp add: frame_def frame_start_def fill_distribute_zero py_range_nonempty)
qed

lemma frame_returns:
  assumes "0 \<le> k" and "k \<le> t" and "t \<le> 2 ^ 53"
  shows "(frame md p k t c = Inr None \<longleftrightarrow> md = ''distribute'' \<and> k < 1)
         \<and> (\<not> (md = ''distribute'' \<and> k < 1) \<longrightarrow> (\<exists>f. frame md p k t c = Inr (Some f)))"
proof (cases "md = ''distribute''")
  case True
  show ?thesis
  proof (cases "k < 1")
    case True
    with \<open>md = ''distribute''\<close> show ?thesis by (simp add: frame_distribute_none)
  next
    case False
    then have "1 \<le> k" by simp
    from frame_distribute_blocks [OF this assms(2,3)] \<open>md = ''distribute''\<close> False
    show ?thesis by simp
  qed
next
  case nd: False
  show ?thesis
  proof (cases "md = ''center''")
    case True
    have "\<bar>t - k\<bar> \<le> 2 ^ 53" using assms by simp
    then have "\<exists>s. frame_start ''center'' k t = Inr s"
      using center_start_exact by blast
    with True show ?thesis by (auto simp add: frame_def)
  next
    case False
    with nd show ?thesis by (simp add: frame_def frame_start_def)
  qed
qed

section \<open>The mode \<^verbatim>\<open>distribute\<close>\<close>

lemma distribute_blocks:
  assumes "length c = 6" and "n < nat t"
  shows "take 6 (drop (length fr + 6 * n)
           (fr @ concat (map (\<lambda>n. if n mod m = 1 \<or> m < 2 then c else ''000000'') (py_range t))))
         = (if int n mod m = 1 \<or> m < 2 then c else ''000000'')"
proof -
  let ?bs = "map (\<lambda>n. if n mod m = 1 \<or> m < 2 then c else ''000000'') (py_range t)"
  have len: "\<forall>b \<in> set ?bs. length b = 6" using assms(1) by auto
  have n: "n < length ?bs" using assms(2) by (simp add: length_py_range)
  have "take 6 (drop (6 * n) (concat ?bs)) = ?bs ! n"
    using len n by (rule block_of_concat)
  also have "\<dots> = (if int n mod m = 1 \<or> m < 2 then c else ''000000'')"
    using assms(2) by (simp add: length_py_range nth_py_range)
  finally show ?thesis by simp
qed

lemma distribute_length:
  assumes "length c = 6"
  shows "length (fr @ concat (map (\<lambda>n. if n mod m = 1 \<or> m < 2 then c else ''000000'')
           (py_range t))) = length fr + 6 * nat t"
proof -
  let ?bs = "map (\<lambda>n. if n mod m = 1 \<or> m < 2 then c else ''000000'') (py_range t)"
  have "\<forall>b \<in> set ?bs. length b = 6" using assms by auto
  then have "length (concat ?bs) = 6 * length ?bs" by (rule length_concat_const)
  then show ?thesis by (simp add: length_py_range)
qed

text \<open>
  C3. With fewer than one lit LED the encoder returns no frame. With \<open>1 \<le> k \<le> t\<close> lit
  LEDs out of \<open>t \<le> 2 ^ 53\<close>, \<open>m = t div k\<close> is at least 1 and LED \<open>n\<close> has the colour
  exactly when \<open>n mod m = 1\<close> or \<open>m < 2\<close>, as the claim says. The claim also lets every LED
  light when more LEDs are lit than there are. There \<open>m\<close> is \<open>0\<close> and the test
  \<^verbatim>\<open>n % m == 1 or m < 2\<close> raises at its left operand, before \<^verbatim>\<open>m < 2\<close> is looked at: with
  23 lit LEDs, the number set at the first start, out of 10, \<^verbatim>\<open>_frame\<close> raises.
\<close>

theorem frame_distribute_pattern:
  "(k < 1 \<longrightarrow> frame ''distribute'' p k t c = Inr None)
   \<and> (1 \<le> k \<and> k \<le> t \<and> t \<le> 2 ^ 53 \<and> length c = 6 \<longrightarrow>
        (\<exists>f. frame ''distribute'' p k t c = Inr (Some f)
           \<and> length f = length (header p) + 6 * nat t
           \<and> (\<forall>n < nat t.
                 take 6 (drop (length (header p) + 6 * n) f) =
                   (if int n mod (t div k) = 1 \<or> t div k < 2 then c else ''000000''))))
   \<and> (1 \<le> t \<and> t < k \<and> t \<le> 2 ^ 53 \<longrightarrow>
        frame ''distribute'' p k t c = Inl ZeroDivisionError)
   \<and> int_truediv 10 23 = Inr 0
   \<and> frame ''distribute'' ''rgb'' 23 10 ''#00FF00'' = Inl ZeroDivisionError"
proof -
  have a: "frame ''distribute'' p k t c = Inr None" if "k < 1"
    using that by (rule frame_distribute_none)
  have b: "\<exists>f. frame ''distribute'' p k t c = Inr (Some f)
           \<and> length f = length (header p) + 6 * nat t
           \<and> (\<forall>n < nat t.
                 take 6 (drop (length (header p) + 6 * n) f) =
                   (if int n mod (t div k) = 1 \<or> t div k < 2 then c else ''000000''))"
    if "1 \<le> k \<and> k \<le> t \<and> t \<le> 2 ^ 53 \<and> length c = 6"
  proof -
    let ?f = "header p @ concat (map (\<lambda>n. if n mod (t div k) = 1 \<or> t div k < 2
                                          then c else ''000000'') (py_range t))"
    have "frame ''distribute'' p k t c = Inr (Some ?f)"
      using that by (intro frame_distribute_blocks) simp_all
    moreover have "length ?f = length (header p) + 6 * nat t"
      using that by (intro distribute_length) simp
    moreover have "\<forall>n < nat t. take 6 (drop (length (header p) + 6 * n) ?f) =
        (if int n mod (t div k) = 1 \<or> t div k < 2 then c else ''000000'')"
      using that by (intro allI impI distribute_blocks) simp_all
    ultimately show ?thesis by blast
  qed
  have c: "frame ''distribute'' p k t c = Inl ZeroDivisionError"
    if "1 \<le> t \<and> t < k \<and> t \<le> 2 ^ 53"
    using that by (intro frame_distribute_raises) simp_all
  have d: "int_truediv 10 23 = Inr 0"
    using int_truediv_exact [of 10 23] by simp
  have e: "frame ''distribute'' ''rgb'' 23 10 ''#00FF00'' = Inl ZeroDivisionError"
    by (rule frame_distribute_raises) simp_all
  show ?thesis using a b c d e by blast
qed

theorem frame_distribute_pattern_witness:
  "(1::int) \<le> 50 \<and> (50::int) \<le> 100 \<and> (100::int) \<le> 2 ^ 53 \<and> length ''68D74C'' = 6
   \<and> (100::int) div 50 = 2
   \<and> (\<exists>f. frame ''distribute'' ''drgb'' 50 100 ''68D74C'' = Inr (Some f)
          \<and> length f = 604
          \<and> take 6 (drop (4 + 6 * 0) f) = ''000000''
          \<and> take 6 (drop (4 + 6 * 1) f) = ''68D74C''
          \<and> take 6 (drop (4 + 6 * 2) f) = ''000000''
          \<and> take 6 (drop (4 + 6 * 99) f) = ''68D74C'')
   \<and> frame ''distribute'' ''drgb'' 0 100 ''68D74C'' = Inr None
   \<and> (1::int) \<le> 10 \<and> (10::int) < 23
   \<and> frame ''distribute'' ''drgb'' 23 10 ''68D74C'' = Inl ZeroDivisionError"
proof -
  have a: "(1::int) \<le> 50 \<and> (50::int) \<le> 100 \<and> (100::int) \<le> 2 ^ 53 \<and> length ''68D74C'' = 6"
    by simp
  have m: "(100::int) div 50 = 2" by simp
  have h: "length (header ''drgb'') = 4" by (simp add: header_def)
  note t = frame_distribute_pattern [of 50 "''drgb''" 100 "''68D74C''"]
  from t a obtain f where f: "frame ''distribute'' ''drgb'' 50 100 ''68D74C'' = Inr (Some f)"
      "length f = length (header ''drgb'') + 6 * nat 100"
      "\<forall>n < nat 100. take 6 (drop (length (header ''drgb'') + 6 * n) f) =
          (if int n mod (100 div 50) = 1 \<or> (100::int) div 50 < 2 then ''68D74C'' else ''000000'')"
    by blast
  have "take 6 (drop (4 + 6 * 0) f) = ''000000''"
    using f(3) [rule_format, of 0] by (simp add: h)
  moreover have "take 6 (drop (4 + 6 * 1) f) = ''68D74C''"
    using f(3) [rule_format, of 1] by (simp add: h)
  moreover have "take 6 (drop (4 + 6 * 2) f) = ''000000''"
    using f(3) [rule_format, of 2] by (simp add: h)
  moreover have "take 6 (drop (4 + 6 * 99) f) = ''68D74C''"
    using f(3) [rule_format, of 99] by (simp add: h)
  moreover have "length f = 604" using f(2) by (simp add: h)
  ultimately have 1: "\<exists>f. frame ''distribute'' ''drgb'' 50 100 ''68D74C'' = Inr (Some f)
          \<and> length f = 604
          \<and> take 6 (drop (4 + 6 * 0) f) = ''000000''
          \<and> take 6 (drop (4 + 6 * 1) f) = ''68D74C''
          \<and> take 6 (drop (4 + 6 * 2) f) = ''000000''
          \<and> take 6 (drop (4 + 6 * 99) f) = ''68D74C''"
    using f(1) by blast
  have z: "(0::int) < 1" by simp
  from frame_distribute_pattern [of 0 "''drgb''" 100 "''68D74C''"] z
  have 2: "frame ''distribute'' ''drgb'' 0 100 ''68D74C'' = Inr None" by blast
  have b: "(1::int) \<le> 10 \<and> (10::int) < 23 \<and> (10::int) \<le> 2 ^ 53" by simp
  from frame_distribute_pattern [of 23 "''drgb''" 10 "''68D74C''"] b
  have 3: "frame ''distribute'' ''drgb'' 23 10 ''68D74C'' = Inl ZeroDivisionError" by blast
  show ?thesis using a m 1 2 3 b by blast
qed

section \<open>The click handler\<close>

lemma next_index:
  fixes i N :: int
  assumes "0 \<le> i" and "i < N"
  shows "(if i + 1 > N - 1 then 0 else i + 1) = (i + 1) mod N"
proof (cases "i + 1 = N")
  case True
  then show ?thesis by simp
next
  case False
  with assms have "i + 1 < N" by simp
  with assms show ?thesis by simp
qed

lemma py_index_in_range:
  "0 \<le> i \<Longrightarrow> i < int (length xs) \<Longrightarrow> py_index xs i = Inr (xs ! nat i)"
  by (simp add: py_index_def)

lemma send_frame_some:
  "frame (mode cfg) (proto cfg) (leds st) (leds_total cfg) (color st) = Inr (Some f) \<Longrightarrow>
     send_frame cfg h st w = Inr (try_send h (Some f) w)"
  by (simp add: send_frame_def)

lemma send_frame_none:
  "frame (mode cfg) (proto cfg) (leds st) (leds_total cfg) (color st) = Inr None \<Longrightarrow>
     send_frame cfg h st w = Inr (try_send h None w)"
  by (simp add: send_frame_def)

lemma sent_try_send_none: "sent (try_send h None w) = sent w"
  by (simp add: try_send_none)

lemma store_state_keeps:
  "sent (store_state st w) = sent w" "py3_log (store_state st w) = py3_log w"
  "py3_updates (store_state st w) = py3_updates w"
  by (simp_all add: store_state_def)

subsection \<open>What reaches the socket\<close>

text \<open>
  \<^verbatim>\<open>bytes.fromhex\<close> decodes a frame block by block: the header, then one block of six
  characters for every LED, each of them the colour or \<^verbatim>\<open>000000\<close>. So a frame decodes as
  soon as the colour does.
\<close>

lemma isspace_not_hex: "isspace ch \<Longrightarrow> hex_digit ch = None"
  by (auto simp add: isspace_def hex_digit_def)

lemma fromhex_skip: "isspace ch \<Longrightarrow> fromhex (ch # d) = fromhex d"
  by (cases d) simp_all

lemma fromhex_append:
  "fromhex a = Inr ba \<Longrightarrow>
     fromhex (a @ d) = (case fromhex d of Inl e \<Rightarrow> Inl e | Inr bd \<Rightarrow> Inr (ba @ bd))"
proof (induction a arbitrary: ba rule: fromhex.induct)
  case 1
  then show ?case by (simp split: sum.splits)
next
  case (2 c)
  then have "isspace c" "ba = []" by (simp_all split: if_splits)
  then show ?case by (simp add: fromhex_skip split: sum.splits)
next
  case (3 c x s)
  show ?case
  proof (cases "isspace c")
    case True
    with "3.prems" have "fromhex (x # s) = Inr ba" by simp
    with True "3.IH"(1) have "fromhex ((x # s) @ d) =
        (case fromhex d of Inl e \<Rightarrow> Inl e | Inr bd \<Rightarrow> Inr (ba @ bd))" by blast
    moreover have "fromhex ((c # x # s) @ d) = fromhex ((x # s) @ d)"
      using True fromhex_skip [of c "(x # s) @ d"] by simp
    ultimately show ?thesis by simp
  next
    case False
    with "3.prems" obtain h l bs where hl: "hex_digit c = Some h" "hex_digit x = Some l"
      and s: "fromhex s = Inr bs" and ba: "ba = of_nat (16 * h + l) # bs"
      by (auto split: option.splits sum.splits)
    from "3.IH"(2) [OF False refl hl(1) hl(2) s]
    have "fromhex (s @ d) = (case fromhex d of Inl e \<Rightarrow> Inl e | Inr bd \<Rightarrow> Inr (bs @ bd))" .
    with False hl ba show ?thesis by (simp split: sum.splits)
  qed
qed

lemma fromhex_blocks:
  "\<forall>b \<in> set bs. \<exists>x. fromhex b = Inr x \<Longrightarrow> \<exists>y. fromhex (concat bs) = Inr y"
proof (induction bs)
  case Nil
  then show ?case by simp
next
  case (Cons b bs)
  then obtain x y where "fromhex b = Inr x" "fromhex (concat bs) = Inr y" by auto
  then show ?case using fromhex_append [of b x "concat bs"] by simp
qed

lemma fromhex_zero: "fromhex ''000000'' = Inr [0, 0, 0]"
  by (simp add: hex_digit_def isspace_def)

lemma fromhex_replicate:
  "fromhex z = Inr zb \<Longrightarrow> fromhex (concat (replicate n z)) = Inr (concat (replicate n zb))"
proof (induction n)
  case 0
  then show ?case by simp
next
  case (Suc n)
  then have "fromhex (concat (replicate n z)) = Inr (concat (replicate n zb))" by blast
  with fromhex_append [OF Suc.prems, of "concat (replicate n z)"]
  show ?case by simp
qed

lemma concat_zero_bytes: "concat (replicate n [0, 0, 0 :: byte]) = replicate (3 * n) 0"
proof (induction n)
  case 0
  then show ?case by simp
next
  case (Suc n)
  have "3 * Suc n = Suc (Suc (Suc (3 * n)))" by simp
  with Suc show ?case by (simp only: replicate_Suc concat.simps append.simps)
qed

lemma fromhex_zeros:
  "fromhex (concat (replicate n ''000000'')) = Inr (replicate (3 * n) 0)"
  using fromhex_replicate [OF fromhex_zero, of n] by (simp only: concat_zero_bytes)

lemma fromhex_header_of:
  "fromhex (header p) = Inr (if p = ''drgb'' then [0x02, 0xFF] else [])"
  by (simp add: header_def hex_digit_def isspace_def)

lemma fill_distribute_returns:
  "fill_distribute m c ns fr = Inr f \<Longrightarrow>
     \<exists>bs. f = fr @ concat bs \<and> set bs \<subseteq> {c, ''000000''}"
proof (cases "m = 0")
  case True
  assume "fill_distribute m c ns fr = Inr f"
  with True have "ns = []" "f = fr" by (cases ns; simp)+
  then show ?thesis by (intro exI [of _ "[]"]) simp
next
  case False
  assume "fill_distribute m c ns fr = Inr f"
  with False have "f = fr @ concat (map (\<lambda>n. if n mod m = 1 \<or> m < 2 then c else ''000000'') ns)"
    by (simp add: fill_distribute_eq)
  then show ?thesis
    by (intro exI [of _ "map (\<lambda>n. if n mod m = 1 \<or> m < 2 then c else ''000000'') ns"]) auto
qed

lemma frame_shape:
  assumes "frame md p k t c = Inr (Some f)"
  shows "\<exists>bs. f = header p @ concat bs \<and> set bs \<subseteq> {c, ''000000''}"
proof -
  consider (seg) s where "f = fill_segment s k c (py_range t) (header p)"
    | (dis) m where "fill_distribute m c (py_range t) (header p) = Inr f"
    | (hdr) "f = header p"
    using assms by (auto simp add: frame_def split: sum.splits if_splits)
  then show ?thesis
  proof cases
    case seg
    then have "f = header p @ concat (map (\<lambda>n. if s \<le> n \<and> n < s + k then c else ''000000'')
        (py_range t))" by (simp add: fill_segment_eq)
    then show ?thesis
      by (intro exI [of _ "map (\<lambda>n. if s \<le> n \<and> n < s + k then c else ''000000'') (py_range t)"])
        auto
  next
    case dis
    then show ?thesis by (rule fill_distribute_returns)
  next
    case hdr
    then show ?thesis by (intro exI [of _ "[]"]) simp
  qed
qed

lemma frame_decodes:
  assumes "frame md p k t c = Inr (Some f)" and "fromhex c = Inr cb"
  shows "\<exists>bs. fromhex f = Inr bs"
proof -
  from frame_shape [OF assms(1)] obtain blocks
    where f: "f = header p @ concat blocks" and b: "set blocks \<subseteq> {c, ''000000''}" by blast
  have "\<forall>x \<in> set blocks. \<exists>y. fromhex x = Inr y"
  proof
    fix x
    assume "x \<in> set blocks"
    with b have "x = c \<or> x = ''000000''" by blast
    then show "\<exists>y. fromhex x = Inr y" using assms(2) fromhex_zero by blast
  qed
  then obtain y where "fromhex (concat blocks) = Inr y" using fromhex_blocks by blast
  then show ?thesis
    unfolding f using fromhex_append [OF fromhex_header_of, of p "concat blocks"] by simp
qed

lemma try_send_decoded:
  "fromhex f = Inr bs \<Longrightarrow>
     try_send h (Some f) w =
       (case sock_sendto h bs of
          None \<Rightarrow> w\<lparr>sent := sent w @ [bs]\<rparr>
        | Some e \<Rightarrow> py3_log_add ''Failed to contact light: '' (Some e) LOG_ERROR w)"
  by (simp add: try_send_def)

text \<open>
  \<^verbatim>\<open>_send_frame\<close> on a frame of hex digits: the decoded frame is handed to the socket, once.
\<close>

lemma send_frame_decoded:
  assumes "frame (mode cfg) (proto cfg) (leds st) (leds_total cfg) (color st) = Inr (Some f)"
    and "fromhex (color st) = Inr cb"
  shows "\<exists>bs. fromhex f = Inr bs
           \<and> send_frame cfg h st w =
               Inr (case sock_sendto h bs of
                      None \<Rightarrow> w\<lparr>sent := sent w @ [bs]\<rparr>
                    | Some e \<Rightarrow> py3_log_add ''Failed to contact light: '' (Some e) LOG_ERROR w)"
proof -
  from frame_decodes [OF assms] obtain bs where bs: "fromhex f = Inr bs" by (elim exE)
  have "send_frame cfg h st w = Inr (try_send h (Some f) w)"
    using assms(1) by (rule send_frame_some)
  then have "send_frame cfg h st w =
      Inr (case sock_sendto h bs of
             None \<Rightarrow> w\<lparr>sent := sent w @ [bs]\<rparr>
           | Some e \<Rightarrow> py3_log_add ''Failed to contact light: '' (Some e) LOG_ERROR w)"
    by (simp only: try_send_decoded [OF bs])
  with bs show ?thesis by (intro exI conjI)
qed

text \<open>
  The branches of \<^verbatim>\<open>on_click\<close> that send: \<^verbatim>\<open>_send_frame\<close> in one state, \<^verbatim>\<open>_store_state\<close> in
  another.
\<close>

lemma on_click_after_send:
  assumes "on_click cfg h b st w =
             (case send_frame cfg h st1 w of
                Inl e \<Rightarrow> Raised e st1 w
              | Inr w' \<Rightarrow> Returned st2 (store_state st2 w'))"
    and "frame (mode cfg) (proto cfg) (leds st1) (leds_total cfg) (color st1) = Inr (Some f)"
    and "fromhex (color st1) = Inr cb"
  shows "\<exists>bs. fromhex f = Inr bs
           \<and> on_click cfg h b st w =
               Returned st2 (store_state st2
                 (case sock_sendto h bs of
                    None \<Rightarrow> w\<lparr>sent := sent w @ [bs]\<rparr>
                  | Some e \<Rightarrow> py3_log_add ''Failed to contact light: '' (Some e) LOG_ERROR w))"
proof -
  from send_frame_decoded [OF assms(2,3), of h w] obtain bs where
    bs: "fromhex f = Inr bs"
      "send_frame cfg h st1 w =
         Inr (case sock_sendto h bs of
                None \<Rightarrow> w\<lparr>sent := sent w @ [bs]\<rparr>
              | Some e \<Rightarrow> py3_log_add ''Failed to contact light: '' (Some e) LOG_ERROR w)"
    by (elim exE conjE)
  have "on_click cfg h b st w =
      Returned st2 (store_state st2
        (case sock_sendto h bs of
           None \<Rightarrow> w\<lparr>sent := sent w @ [bs]\<rparr>
         | Some e \<Rightarrow> py3_log_add ''Failed to contact light: '' (Some e) LOG_ERROR w))"
    unfolding assms(1) bs(2) by simp
  with bs(1) show ?thesis by (intro exI conjI)
qed

lemma on_click_after_none:
  assumes "on_click cfg h b st w =
             (case send_frame cfg h st1 w of
                Inl e \<Rightarrow> Raised e st1 w
              | Inr w' \<Rightarrow> Returned st2 (store_state st2 w'))"
    and "frame (mode cfg) (proto cfg) (leds st1) (leds_total cfg) (color st1) = Inr None"
  shows "\<exists>w'. on_click cfg h b st w = Returned st2 w' \<and> sent w' = sent w"
proof -
  have "send_frame cfg h st1 w = Inr (try_send h None w)"
    using assms(2) by (rule send_frame_none)
  then have "on_click cfg h b st w = Returned st2 (store_state st2 (try_send h None w))"
    by (simp add: assms(1))
  moreover have "sent (store_state st2 (try_send h None w)) = sent w"
    by (simp add: store_state_keeps sent_try_send_none)
  ultimately show ?thesis by blast
qed

subsection \<open>Button 1\<close>

text \<open>Button 1, for a colour index inside the palette.\<close>

lemma click_branch_1:
  assumes "0 \<le> color_idx st" and "color_idx st < int (length (colors cfg))"
    and "st' = st\<lparr>color_idx := (color_idx st + 1) mod int (length (colors cfg)),
                   color := colors cfg ! nat ((color_idx st + 1) mod int (length (colors cfg)))\<rparr>"
  shows "click_branch cfg h 1 st w =
           (case send_frame cfg h st' w of
              Inl e \<Rightarrow> Raised e st' w
            | Inr w' \<Rightarrow> Returned st' w')"
proof -
  define N where "N = int (length (colors cfg))"
  define j where "j = (color_idx st + 1) mod N"
  have Npos: "0 < N" using assms(1,2) unfolding N_def by linarith
  have j: "0 \<le> j" "j < N" using Npos by (simp_all add: j_def)
  have nx: "(if color_idx st + 1 > N - 1 then 0 else color_idx st + 1) = j"
    unfolding j_def using assms(1,2) by (intro next_index) (simp_all add: N_def)
  have ix: "py_index (colors cfg) j = Inr (colors cfg ! nat j)"
    using j by (intro py_index_in_range) (simp_all add: N_def)
  have st': "st' = st\<lparr>color_idx := j, color := colors cfg ! nat j\<rparr>"
    by (simp add: assms(3) j_def N_def)
  show ?thesis
    unfolding click_branch_def Let_def ncolors_def N_def [symmetric] nx st'
    by (simp add: ix)
qed

lemma on_click_1:
  assumes "0 \<le> color_idx st" and "color_idx st < int (length (colors cfg))"
    and "st' = st\<lparr>color_idx := (color_idx st + 1) mod int (length (colors cfg)),
                   color := colors cfg ! nat ((color_idx st + 1) mod int (length (colors cfg)))\<rparr>"
  shows "on_click cfg h 1 st w =
           (case send_frame cfg h st' w of
              Inl e \<Rightarrow> Raised e st' w
            | Inr w' \<Rightarrow> Returned st' (store_state st' w'))"
  unfolding on_click_def click_branch_1 [OF assms] by (simp split: sum.splits)

lemma state_of_on_click_1:
  assumes "0 \<le> color_idx st" and "color_idx st < int (length (colors cfg))"
  shows "state_of (on_click cfg h 1 st w) =
           st\<lparr>color_idx := (color_idx st + 1) mod int (length (colors cfg)),
              color := colors cfg ! nat ((color_idx st + 1) mod int (length (colors cfg)))\<rparr>"
  unfolding on_click_1 [OF assms refl] by (simp split: sum.splits)

lemma clicks_button1:
  assumes "0 \<le> color_idx st" and "color_idx st < int (length (colors cfg))"
  shows "color_idx (fst (clicks cfg h (replicate n 1) st w)) =
           (color_idx st + int n) mod int (length (colors cfg))
         \<and> (0 < n \<longrightarrow> color (fst (clicks cfg h (replicate n 1) st w)) =
               colors cfg ! nat ((color_idx st + int n) mod int (length (colors cfg))))"
  using assms
proof (induction n arbitrary: st w)
  case 0
  then show ?case by simp
next
  case (Suc n)
  define N where "N = int (length (colors cfg))"
  define s1 where "s1 = state_of (on_click cfg h 1 st w)"
  define w1 where "w1 = world_of (on_click cfg h 1 st w)"
  have Npos: "0 < N" using Suc.prems unfolding N_def by linarith
  have s1: "s1 = st\<lparr>color_idx := (color_idx st + 1) mod N,
                     color := colors cfg ! nat ((color_idx st + 1) mod N)\<rparr>"
    unfolding s1_def N_def using Suc.prems by (rule state_of_on_click_1)
  have i1: "color_idx s1 = (color_idx st + 1) mod N" by (simp add: s1)
  have r: "0 \<le> color_idx s1" "color_idx s1 < int (length (colors cfg))"
    using Npos by (simp_all add: i1) (simp add: N_def [symmetric])
  have step: "clicks cfg h (replicate (Suc n) 1) st w = clicks cfg h (replicate n 1) s1 w1"
    by (simp add: s1_def w1_def)
  have "((color_idx st + 1) mod N + int n) mod N = (color_idx st + 1 + int n) mod N"
    by (rule mod_add_left_eq)
  also have "color_idx st + 1 + int n = color_idx st + int (Suc n)" by simp
  finally have md: "((color_idx st + 1) mod N + int n) mod N = (color_idx st + int (Suc n)) mod N" .
  from Suc.IH [OF r, of w1]
  have ih: "color_idx (fst (clicks cfg h (replicate n 1) s1 w1)) = (color_idx s1 + int n) mod N"
    "0 < n \<longrightarrow> color (fst (clicks cfg h (replicate n 1) s1 w1)) =
        colors cfg ! nat ((color_idx s1 + int n) mod N)"
    by (simp_all add: N_def)
  show ?case
  proof (cases n)
    case 0
    then show ?thesis unfolding step by (simp add: s1 N_def)
  next
    case (Suc m)
    then have "0 < n" by simp
    with ih show ?thesis unfolding step i1 md by (simp add: N_def)
  qed
qed

text \<open>
  C4, as amended. For a colour index inside the palette, a click of button 1 sets the index
  to \<open>(index + 1) mod\<close> the palette's size and the colour to the palette's entry there,
  whatever happens afterwards. When the encoder returns a frame for the new state and the
  new colour is a string of hex digits, the frame decodes to bytes, the click returns, and
  these bytes are handed to the socket once: the datagrams sent grow by this one datagram,
  or, when the socket refuses it, the failure is logged; then the state is stored. When the
  encoder returns none, the click returns with nothing handed to the socket. With between
  none and all of at most \<open>2 ^ 53\<close> LEDs lit, the encoder returns none exactly in mode
  \<^verbatim>\<open>distribute\<close> with no lit LED, and a frame otherwise. From index 0 of a palette of three,
  four clicks give the indices 1, 2, 0, 1 and the colours at these indices.
\<close>

theorem click_button1:
  assumes "0 \<le> color_idx st" and "color_idx st < int (length (colors cfg))"
    and "st' = st\<lparr>color_idx := (color_idx st + 1) mod int (length (colors cfg)),
                   color := colors cfg ! nat ((color_idx st + 1) mod int (length (colors cfg)))\<rparr>"
  shows "state_of (on_click cfg h 1 st w) = st'
    \<and> (\<forall>f cb. frame (mode cfg) (proto cfg) (leds st') (leds_total cfg) (color st') = Inr (Some f)
              \<and> fromhex (color st') = Inr cb \<longrightarrow>
          (\<exists>bs. fromhex f = Inr bs
             \<and> on_click cfg h 1 st w =
                 Returned st' (store_state st'
                   (case sock_sendto h bs of
                      None \<Rightarrow> w\<lparr>sent := sent w @ [bs]\<rparr>
                    | Some e \<Rightarrow>
                        py3_log_add ''Failed to contact light: '' (Some e) LOG_ERROR w))))
    \<and> (frame (mode cfg) (proto cfg) (leds st') (leds_total cfg) (color st') = Inr None \<longrightarrow>
          (\<exists>w'. on_click cfg h 1 st w = Returned st' w' \<and> sent w' = sent w))
    \<and> (0 \<le> leds st \<and> leds st \<le> leds_total cfg \<and> leds_total cfg \<le> 2 ^ 53 \<longrightarrow>
          (frame (mode cfg) (proto cfg) (leds st') (leds_total cfg) (color st') = Inr None
             \<longleftrightarrow> mode cfg = ''distribute'' \<and> leds st < 1)
          \<and> (\<not> (mode cfg = ''distribute'' \<and> leds st < 1) \<longrightarrow>
               (\<exists>f. frame (mode cfg) (proto cfg) (leds st') (leds_total cfg) (color st')
                      = Inr (Some f))))
    \<and> (length (colors cfg) = 3 \<longrightarrow> color_idx st = 0 \<longrightarrow>
          map (\<lambda>bs. color_idx (fst (clicks cfg h bs st w))) [[1], [1, 1], [1, 1, 1], [1, 1, 1, 1]]
            = [1, 2, 0, 1]
          \<and> map (\<lambda>bs. color (fst (clicks cfg h bs st w))) [[1], [1, 1], [1, 1, 1], [1, 1, 1, 1]]
            = [colors cfg ! 1, colors cfg ! 2, colors cfg ! 0, colors cfg ! 1])"
proof -
  note oc = on_click_1 [OF assms, of h w]
  have a: "state_of (on_click cfg h 1 st w) = st'"
    unfolding assms(3) using assms(1,2) by (rule state_of_on_click_1)
  have b: "\<exists>bs. fromhex f = Inr bs
             \<and> on_click cfg h 1 st w =
                 Returned st' (store_state st'
                   (case sock_sendto h bs of
                      None \<Rightarrow> w\<lparr>sent := sent w @ [bs]\<rparr>
                    | Some e \<Rightarrow>
                        py3_log_add ''Failed to contact light: '' (Some e) LOG_ERROR w))"
    if "frame (mode cfg) (proto cfg) (leds st') (leds_total cfg) (color st') = Inr (Some f)
          \<and> fromhex (color st') = Inr cb" for f cb
    using oc that by (intro on_click_after_send [where ?st1.0 = st' and cb = cb]) simp_all
  have c: "\<exists>w'. on_click cfg h 1 st w = Returned st' w' \<and> sent w' = sent w"
    if "frame (mode cfg) (proto cfg) (leds st') (leds_total cfg) (color st') = Inr None"
    using oc that by (rule on_click_after_none)
  have l: "leds st' = leds st" by (simp add: assms(3))
  have d: "(frame (mode cfg) (proto cfg) (leds st') (leds_total cfg) (color st') = Inr None
             \<longleftrightarrow> mode cfg = ''distribute'' \<and> leds st < 1)
          \<and> (\<not> (mode cfg = ''distribute'' \<and> leds st < 1) \<longrightarrow>
               (\<exists>f. frame (mode cfg) (proto cfg) (leds st') (leds_total cfg) (color st')
                      = Inr (Some f)))"
    if "0 \<le> leds st \<and> leds st \<le> leds_total cfg \<and> leds_total cfg \<le> 2 ^ 53"
    unfolding l using that by (intro frame_returns) simp_all
  have e: "map (\<lambda>bs. color_idx (fst (clicks cfg h bs st w))) [[1], [1, 1], [1, 1, 1], [1, 1, 1, 1]]
            = [1, 2, 0, 1]
          \<and> map (\<lambda>bs. color (fst (clicks cfg h bs st w))) [[1], [1, 1], [1, 1, 1], [1, 1, 1, 1]]
            = [colors cfg ! 1, colors cfg ! 2, colors cfg ! 0, colors cfg ! 1]"
    if n: "length (colors cfg) = 3" and z: "color_idx st = 0"
  proof -
    have r: "0 \<le> color_idx st" "color_idx st < int (length (colors cfg))" using n z by simp_all
    have "replicate 1 (1::int) = [1]" "replicate 2 (1::int) = [1, 1]"
      "replicate 3 (1::int) = [1, 1, 1]" "replicate 4 (1::int) = [1, 1, 1, 1]"
      by (simp_all add: numeral_eq_Suc)
    with clicks_button1 [OF r, of h 1 w] clicks_button1 [OF r, of h 2 w]
      clicks_button1 [OF r, of h 3 w] clicks_button1 [OF r, of h 4 w]
    show ?thesis by (simp add: n z)
  qed
  show ?thesis
    apply (intro conjI allI impI)
    subgoal by (rule a)
    subgoal for f cb by (rule b)
    subgoal by (rule c)
    subgoal using d by blast
    subgoal using d by blast
    subgoal using e by blast
    subgoal using e by blast
    done
qed

theorem click_button1_witness:
  "0 \<le> color_idx \<lparr>leds = 1, color = ''C60D12'', color_idx = 2\<rparr>
   \<and> color_idx \<lparr>leds = 1, color = ''C60D12'', color_idx = 2\<rparr>
        < int (length (colors (default_config
             \<lparr>leds_total := 2, colors := [''68D74C'', ''E05B22'', ''C60D12'']\<rparr>)))
   \<and> frame ''default'' ''rgb'' 1 2 ''68D74C'' = Inr (Some ''68D74C000000'')
   \<and> fromhex ''68D74C000000'' = Inr [0x68, 0xD7, 0x4C, 0, 0, 0]
   \<and> on_click (default_config\<lparr>leds_total := 2, colors := [''68D74C'', ''E05B22'', ''C60D12'']\<rparr>)
        quiet_host 1 \<lparr>leds = 1, color = ''C60D12'', color_idx = 2\<rparr> empty_world
      = Returned \<lparr>leds = 1, color = ''68D74C'', color_idx = 0\<rparr>
          \<lparr>sent = [[0x68, 0xD7, 0x4C, 0, 0, 0]], py3_log = [],
           py3_storage = \<lparr>stored_leds = Some 1, stored_color = Some ''68D74C'',
                           stored_color_idx = Some 0\<rparr>,
           py3_updates = 0\<rparr>"
proof -
  let ?cfg = "default_config\<lparr>leds_total := 2, colors := [''68D74C'', ''E05B22'', ''C60D12'']\<rparr>"
  let ?st = "\<lparr>leds = 1, color = ''C60D12'', color_idx = 2\<rparr>"
  let ?st' = "\<lparr>leds = 1, color = ''68D74C'', color_idx = 0\<rparr>"
  have a: "0 \<le> color_idx ?st" "color_idx ?st < int (length (colors ?cfg))"
    by simp_all
  have b: "?st' = ?st\<lparr>color_idx := (color_idx ?st + 1) mod int (length (colors ?cfg)),
      color := colors ?cfg ! nat ((color_idx ?st + 1) mod int (length (colors ?cfg)))\<rparr>"
    by simp
  have fr: "frame ''default'' ''rgb'' 1 2 ''68D74C'' = Inr (Some ''68D74C000000'')"
    by (simp add: frame_def frame_start_def header_def py_range_def upto_rec1)
  have hx: "fromhex ''68D74C000000'' = Inr [0x68, 0xD7, 0x4C, 0, 0, 0]"
    by (simp add: hex_digit_def isspace_def)
  have c: "fromhex ''68D74C'' = Inr [0x68, 0xD7, 0x4C]"
    by (simp add: hex_digit_def isspace_def)
  have fr': "frame (mode ?cfg) (proto ?cfg) (leds ?st') (leds_total ?cfg) (color ?st')
      = Inr (Some ''68D74C000000'') \<and> fromhex (color ?st') = Inr [0x68, 0xD7, 0x4C]"
    using fr c by (simp add: default_config_def)
  note t = click_button1 [OF a b, of quiet_host empty_world]
  note t2 = t [THEN conjunct2, THEN conjunct1, rule_format, OF fr']
  from t2 obtain bs where bs: "fromhex ''68D74C000000'' = Inr bs"
    "on_click ?cfg quiet_host 1 ?st empty_world =
       Returned ?st' (store_state ?st'
         (case sock_sendto quiet_host bs of
            None \<Rightarrow> empty_world\<lparr>sent := sent empty_world @ [bs]\<rparr>
          | Some e \<Rightarrow>
              py3_log_add ''Failed to contact light: '' (Some e) LOG_ERROR empty_world))"
    by (elim exE conjE)
  from bs(1) hx have "bs = [0x68, 0xD7, 0x4C, 0, 0, 0]" by simp
  moreover have "sock_sendto quiet_host bs = None" by (simp add: quiet_host_def)
  ultimately have "on_click ?cfg quiet_host 1 ?st empty_world =
      Returned ?st' (store_state ?st'
        (empty_world\<lparr>sent := sent empty_world @ [[0x68, 0xD7, 0x4C, 0, 0, 0]]\<rparr>))"
    using bs(2) by simp
  then have "on_click ?cfg quiet_host 1 ?st empty_world
      = Returned ?st'
          \<lparr>sent = [[0x68, 0xD7, 0x4C, 0, 0, 0]], py3_log = [],
           py3_storage = \<lparr>stored_leds = Some 1, stored_color = Some ''68D74C'',
                           stored_color_idx = Some 0\<rparr>,
           py3_updates = 0\<rparr>"
    by (simp add: store_state_def empty_world_def)
  with a fr hx show ?thesis by blast
qed

text \<open>
  The claim as it was stated fails in two ways. In mode \<^verbatim>\<open>distribute\<close> with no lit LED the
  click changes the colour, but the encoder returns no frame and nothing is sent. And a
  colour of the declared palette starts with \<^verbatim>\<open>#\<close>, so the frame is no string of hex digits:
  \<^verbatim>\<open>bytes.fromhex\<close> raises \<^verbatim>\<open>ValueError\<close> inside the \<^verbatim>\<open>try\<close>, the failure is logged and
  nothing is sent.
\<close>

theorem click_button1_counterexample:
  "frame ''distribute'' ''rgb'' 0 100 ''#E05B22'' = Inr None
   \<and> state_of (on_click (default_config\<lparr>mode := ''distribute''\<rparr>) quiet_host 1
        \<lparr>leds = 0, color = ''#68D74C'', color_idx = 0\<rparr> empty_world)
      = \<lparr>leds = 0, color = ''#E05B22'', color_idx = 1\<rparr>
   \<and> sent (world_of (on_click (default_config\<lparr>mode := ''distribute''\<rparr>) quiet_host 1
        \<lparr>leds = 0, color = ''#68D74C'', color_idx = 0\<rparr> empty_world)) = []
   \<and> fromhex ''#E05B22'' = Inl ValueError
   \<and> on_click (default_config\<lparr>leds_total := 2\<rparr>) quiet_host 1
        \<lparr>leds = 1, color = ''#00FF00'', color_idx = 0\<rparr> empty_world
      = Returned \<lparr>leds = 1, color = ''#E05B22'', color_idx = 1\<rparr>
          \<lparr>sent = [],
           py3_log = [\<lparr>msg = ''Failed to contact light: '', exn = Some ValueError,
                        lvl = LOG_ERROR\<rparr>],
           py3_storage = \<lparr>stored_leds = Some 1, stored_color = Some ''#E05B22'',
                           stored_color_idx = Some 1\<rparr>,
           py3_updates = 0\<rparr>"
proof -
  have 1: "frame ''distribute'' ''rgb'' 0 100 ''#E05B22'' = Inr None"
    by (simp add: frame_distribute_none)
  then have 2: "on_click (default_config\<lparr>mode := ''distribute''\<rparr>) quiet_host 1
        \<lparr>leds = 0, color = ''#68D74C'', color_idx = 0\<rparr> empty_world
      = Returned \<lparr>leds = 0, color = ''#E05B22'', color_idx = 1\<rparr>
          (store_state \<lparr>leds = 0, color = ''#E05B22'', color_idx = 1\<rparr>
             (try_send quiet_host None empty_world))"
    by (simp add: on_click_def click_branch_def ncolors_def py_index_def send_frame_def
        default_config_def)
  have 3: "fromhex ''#E05B22'' = Inl ValueError"
    by (simp add: hex_digit_def isspace_def)
  have f: "frame ''default'' ''rgb'' 1 2 ''#E05B22'' = Inr (Some ''#E05B22000000'')"
    by (simp add: frame_def frame_start_def header_def py_range_def upto_rec1)
  have "fromhex ''#E05B22000000'' = Inl ValueError"
    by (simp add: hex_digit_def isspace_def)
  with f have 4: "on_click (default_config\<lparr>leds_total := 2\<rparr>) quiet_host 1
        \<lparr>leds = 1, color = ''#00FF00'', color_idx = 0\<rparr> empty_world
      = Returned \<lparr>leds = 1, color = ''#E05B22'', color_idx = 1\<rparr>
          \<lparr>sent = [],
           py3_log = [\<lparr>msg = ''Failed to contact light: '', exn = Some ValueError,
                        lvl = LOG_ERROR\<rparr>],
           py3_storage = \<lparr>stored_leds = Some 1, stored_color = Some ''#E05B22'',
                           stored_color_idx = Some 1\<rparr>,
           py3_updates = 0\<rparr>"
    by (simp add: on_click_def click_branch_def ncolors_def py_index_def send_frame_def
        try_send_def py3_log_add_def store_state_def default_config_def empty_world_def)
  show ?thesis
    using 1 3 4 unfolding 2
    by (simp add: store_state_keeps sent_try_send_none empty_world_def)
qed

subsection \<open>What a click keeps\<close>

lemma try_send_storage: "py3_storage (try_send h m w) = py3_storage w"
  by (simp add: try_send_def py3_log_add_def split: sum.splits option.splits)

lemma send_frame_storage: "send_frame cfg h st w = Inr w' \<Longrightarrow> py3_storage w' = py3_storage w"
  by (auto simp add: send_frame_def try_send_storage split: sum.splits)

lemma pick_colors_keeps:
  "leds (state_of (pick_colors cfg h ls st w)) = leds st
   \<and> color_idx (state_of (pick_colors cfg h ls st w)) = color_idx st"
  by (induction ls arbitrary: st w) (simp_all add: Let_def split: sum.splits)

lemma pick_colors_storage:
  "py3_storage (world_of (pick_colors cfg h ls st w)) = py3_storage w"
proof (induction ls arbitrary: st w)
  case Nil
  then show ?case by simp
next
  case (Cons c cs)
  show ?case
    using Cons.IH send_frame_storage
    by (auto simp add: Let_def py3_log_add_def split: sum.splits)
qed

lemma state_of_on_click: "state_of (on_click cfg h b st w) = state_of (click_branch cfg h b st w)"
  by (cases "click_branch cfg h b st w") (simp_all add: on_click_def)

lemma click_branch_leds:
  assumes "0 \<le> leds st" and "leds st \<le> leds_total cfg"
  shows "0 \<le> leds (state_of (click_branch cfg h b st w))
         \<and> leds (state_of (click_branch cfg h b st w)) \<le> leds_total cfg"
proof -
  consider "b = 1" | "b = 2" | "b = 3" | "b = 4" | "b = 5"
    | "b \<noteq> 1" "b \<noteq> 2" "b \<noteq> 3" "b \<noteq> 4" "b \<noteq> 5"
    by blast
  then show ?thesis
  proof cases
    case 1
    with assms show ?thesis
      by (simp add: click_branch_def Let_def split: sum.splits)
  next
    case 2
    with assms show ?thesis
      by (simp add: click_branch_def pick_colors_keeps split: sum.splits)
  next
    case 3
    with assms show ?thesis
      by (simp add: click_branch_def Let_def split: sum.splits)
  next
    case 4
    with assms show ?thesis
      by (simp add: click_branch_def Let_def split: sum.splits)
  next
    case 5
    with assms show ?thesis
      by (simp add: click_branch_def Let_def split: sum.splits)
  next
    case 6
    with assms show ?thesis
      by (simp add: click_branch_def)
  qed
qed

lemma click_branch_storage:
  "py3_storage (world_of (click_branch cfg h b st w)) = py3_storage w"
proof -
  have sf: "py3_storage (world_of (case send_frame cfg h s w of
                Inl e \<Rightarrow> Raised e s w | Inr w' \<Rightarrow> Returned s' w')) = py3_storage w"
    for s s'
    by (cases "send_frame cfg h s w") (simp_all add: send_frame_storage)
  consider "b = 1" | "b = 2" | "b = 3" | "b = 4" | "b = 5"
    | "b \<noteq> 1" "b \<noteq> 2" "b \<noteq> 3" "b \<noteq> 4" "b \<noteq> 5"
    by blast
  then show ?thesis
  proof cases
    case 1
    then show ?thesis
      by (simp add: click_branch_def Let_def sf split: sum.splits)
  next
    case 2
    then show ?thesis
      by (simp add: click_branch_def pick_colors_storage split: sum.splits)
  next
    case 3
    then show ?thesis
      by (simp add: click_branch_def Let_def sf)
  next
    case 4
    then show ?thesis
      by (simp add: click_branch_def Let_def sf)
  next
    case 5
    then show ?thesis
      by (simp add: click_branch_def Let_def sf)
  next
    case 6
    then show ?thesis
      by (simp add: click_branch_def)
  qed
qed

lemma on_click_4_full:
  "leds st = leds_total cfg \<Longrightarrow> on_click cfg h 4 st w = Returned st (store_state st w)"
  by (simp add: on_click_def click_branch_def)

lemma on_click_5_empty:
  "leds st = 0 \<Longrightarrow> on_click cfg h 5 st w = Returned st (store_state st w)"
  by (simp add: on_click_def click_branch_def)

lemma on_click_4:
  "leds st < leds_total cfg \<Longrightarrow>
     on_click cfg h 4 st w =
       (case send_frame cfg h (st\<lparr>leds := leds st + 1\<rparr>) w of
          Inl e \<Rightarrow> Raised e (st\<lparr>leds := leds st + 1\<rparr>) w
        | Inr w' \<Rightarrow> Returned (st\<lparr>leds := leds st + 1\<rparr>)
                      (store_state (st\<lparr>leds := leds st + 1\<rparr>) w'))"
  by (simp add: on_click_def click_branch_def Let_def split: sum.splits)

lemma on_click_5:
  "0 < leds st \<Longrightarrow>
     on_click cfg h 5 st w =
       (case send_frame cfg h (st\<lparr>leds := leds st - 1\<rparr>) w of
          Inl e \<Rightarrow> Raised e (st\<lparr>leds := leds st - 1\<rparr>) w
        | Inr w' \<Rightarrow> Returned (st\<lparr>leds := leds st - 1\<rparr>)
                      (store_state (st\<lparr>leds := leds st - 1\<rparr>) w'))"
  by (simp add: on_click_def click_branch_def Let_def split: sum.splits)

lemma on_click_3:
  "on_click cfg h 3 st w =
     (case send_frame cfg h (st\<lparr>color := ''000000''\<rparr>) w of
        Inl e \<Rightarrow> Raised e (st\<lparr>color := ''000000''\<rparr>) w
      | Inr w' \<Rightarrow> Returned (st\<lparr>color := COLOR_GOOD h\<rparr>)
                    (store_state (st\<lparr>color := COLOR_GOOD h\<rparr>) w'))"
  by (simp add: on_click_def click_branch_def Let_def split: sum.splits)

lemma on_click_other:
  "b \<noteq> 1 \<Longrightarrow> b \<noteq> 2 \<Longrightarrow> b \<noteq> 3 \<Longrightarrow> b \<noteq> 4 \<Longrightarrow> b \<noteq> 5 \<Longrightarrow>
     on_click cfg h b st w = Returned st (store_state st w)"
  by (simp add: on_click_def click_branch_def)

lemma on_click_returned_storage:
  "on_click cfg h b st w = Returned st' w' \<Longrightarrow>
     py3_storage w' = \<lparr>stored_leds = Some (leds st'), stored_color = Some (color st'),
                        stored_color_idx = Some (color_idx st')\<rparr>"
  by (cases "click_branch cfg h b st w") (auto simp add: on_click_def store_state_def)

lemma on_click_raised_storage:
  "on_click cfg h b st w = Raised e st' w' \<Longrightarrow> py3_storage w' = py3_storage w"
  using click_branch_storage [of cfg h b st w]
  by (cases "click_branch cfg h b st w") (auto simp add: on_click_def)

subsection \<open>Buttons 4 and 5\<close>

text \<open>
  C5, as amended. Let the number of lit LEDs be between none and all. Then it still is after
  any click, returned or raised. Button 4 with all LEDs lit, and button 5 with none, return
  the state as it was and change nothing outside but the stored copy of that state: nothing
  is sent and nothing is logged. In the other cases button 4 adds one and button 5 takes one
  off. When the encoder returns a frame for the new number and the colour is a string of
  hex digits, the frame decodes to bytes, the click returns, and these bytes are handed to
  the socket once: the datagrams sent grow by this one datagram, or, when the socket refuses
  it, the failure is logged. When the encoder returns none, the click returns with nothing
  handed to the socket. With at most \<open>2 ^ 53\<close> LEDs the encoder returns a frame in each of
  these cases but one: button 5 from one lit LED in mode \<^verbatim>\<open>distribute\<close>, where it returns
  none.
\<close>

theorem click_scroll_invariant:
  assumes "0 \<le> leds st" and "leds st \<le> leds_total cfg"
  shows "0 \<le> leds (state_of (on_click cfg h b st w))
    \<and> leds (state_of (on_click cfg h b st w)) \<le> leds_total cfg
    \<and> (leds st = leds_total cfg \<longrightarrow> on_click cfg h 4 st w = Returned st (store_state st w))
    \<and> (leds st = 0 \<longrightarrow> on_click cfg h 5 st w = Returned st (store_state st w))
    \<and> sent (store_state st w) = sent w \<and> py3_log (store_state st w) = py3_log w
    \<and> (leds st < leds_total cfg \<longrightarrow>
          state_of (on_click cfg h 4 st w) = st\<lparr>leds := leds st + 1\<rparr>
          \<and> (\<forall>f cb. frame (mode cfg) (proto cfg) (leds st + 1) (leds_total cfg) (color st)
                      = Inr (Some f)
                    \<and> fromhex (color st) = Inr cb \<longrightarrow>
                (\<exists>bs. fromhex f = Inr bs
                   \<and> on_click cfg h 4 st w =
                       Returned (st\<lparr>leds := leds st + 1\<rparr>)
                         (store_state (st\<lparr>leds := leds st + 1\<rparr>)
                           (case sock_sendto h bs of
                              None \<Rightarrow> w\<lparr>sent := sent w @ [bs]\<rparr>
                            | Some e \<Rightarrow>
                                py3_log_add ''Failed to contact light: '' (Some e) LOG_ERROR w))))
          \<and> (leds_total cfg \<le> 2 ^ 53 \<longrightarrow>
                (\<exists>f. frame (mode cfg) (proto cfg) (leds st + 1) (leds_total cfg) (color st)
                       = Inr (Some f))))
    \<and> (0 < leds st \<longrightarrow>
          state_of (on_click cfg h 5 st w) = st\<lparr>leds := leds st - 1\<rparr>
          \<and> (\<forall>f cb. frame (mode cfg) (proto cfg) (leds st - 1) (leds_total cfg) (color st)
                      = Inr (Some f)
                    \<and> fromhex (color st) = Inr cb \<longrightarrow>
                (\<exists>bs. fromhex f = Inr bs
                   \<and> on_click cfg h 5 st w =
                       Returned (st\<lparr>leds := leds st - 1\<rparr>)
                         (store_state (st\<lparr>leds := leds st - 1\<rparr>)
                           (case sock_sendto h bs of
                              None \<Rightarrow> w\<lparr>sent := sent w @ [bs]\<rparr>
                            | Some e \<Rightarrow>
                                py3_log_add ''Failed to contact light: '' (Some e) LOG_ERROR w))))
          \<and> (frame (mode cfg) (proto cfg) (leds st - 1) (leds_total cfg) (color st) = Inr None
                \<longrightarrow> (\<exists>w'. on_click cfg h 5 st w = Returned (st\<lparr>leds := leds st - 1\<rparr>) w'
                          \<and> sent w' = sent w))
          \<and> (leds_total cfg \<le> 2 ^ 53 \<longrightarrow>
                (frame (mode cfg) (proto cfg) (leds st - 1) (leds_total cfg) (color st) = Inr None
                   \<longleftrightarrow> mode cfg = ''distribute'' \<and> leds st = 1)
                \<and> (\<not> (mode cfg = ''distribute'' \<and> leds st = 1) \<longrightarrow>
                     (\<exists>f. frame (mode cfg) (proto cfg) (leds st - 1) (leds_total cfg) (color st)
                            = Inr (Some f)))))"
proof -
  let ?up = "st\<lparr>leds := leds st + 1\<rparr>"
  let ?dn = "st\<lparr>leds := leds st - 1\<rparr>"
  have inv: "0 \<le> leds (state_of (on_click cfg h b st w))
      \<and> leds (state_of (on_click cfg h b st w)) \<le> leds_total cfg"
    unfolding state_of_on_click using assms by (rule click_branch_leds)
  have full: "on_click cfg h 4 st w = Returned st (store_state st w)"
    if "leds st = leds_total cfg" using that by (rule on_click_4_full)
  have empty: "on_click cfg h 5 st w = Returned st (store_state st w)"
    if "leds st = 0" using that by (rule on_click_5_empty)
  have keeps: "sent (store_state st w) = sent w \<and> py3_log (store_state st w) = py3_log w"
    by (simp add: store_state_keeps)
  have up_state: "state_of (on_click cfg h 4 st w) = ?up" if "leds st < leds_total cfg"
    unfolding on_click_4 [OF that] by (simp split: sum.splits)
  have up_frame: "\<exists>bs. fromhex f = Inr bs
      \<and> on_click cfg h 4 st w =
          Returned ?up (store_state ?up
            (case sock_sendto h bs of
               None \<Rightarrow> w\<lparr>sent := sent w @ [bs]\<rparr>
             | Some e \<Rightarrow> py3_log_add ''Failed to contact light: '' (Some e) LOG_ERROR w))"
    if "leds st < leds_total cfg"
      and "frame (mode cfg) (proto cfg) (leds st + 1) (leds_total cfg) (color st) = Inr (Some f)
           \<and> fromhex (color st) = Inr cb"
    for f cb
    using on_click_4 [OF that(1), of h w] that(2)
    by (intro on_click_after_send [where ?st1.0 = ?up and cb = cb]) simp_all
  have up_ex: "\<exists>f. frame (mode cfg) (proto cfg) (leds st + 1) (leds_total cfg) (color st)
                 = Inr (Some f)"
    if "leds st < leds_total cfg" and "leds_total cfg \<le> 2 ^ 53"
  proof -
    have "0 \<le> leds st + 1" "leds st + 1 \<le> leds_total cfg" using assms that by simp_all
    from frame_returns [OF this that(2), of "mode cfg" "proto cfg" "color st"] assms(1)
    show ?thesis by simp
  qed
  have dn_state: "state_of (on_click cfg h 5 st w) = ?dn" if "0 < leds st"
    unfolding on_click_5 [OF that] by (simp split: sum.splits)
  have dn_frame: "\<exists>bs. fromhex f = Inr bs
      \<and> on_click cfg h 5 st w =
          Returned ?dn (store_state ?dn
            (case sock_sendto h bs of
               None \<Rightarrow> w\<lparr>sent := sent w @ [bs]\<rparr>
             | Some e \<Rightarrow> py3_log_add ''Failed to contact light: '' (Some e) LOG_ERROR w))"
    if "0 < leds st"
      and "frame (mode cfg) (proto cfg) (leds st - 1) (leds_total cfg) (color st) = Inr (Some f)
           \<and> fromhex (color st) = Inr cb"
    for f cb
    using on_click_5 [OF that(1), of cfg h w] that(2)
    by (intro on_click_after_send [where ?st1.0 = ?dn and cb = cb]) simp_all
  have dn_none: "\<exists>w'. on_click cfg h 5 st w = Returned ?dn w' \<and> sent w' = sent w"
    if "0 < leds st"
      and "frame (mode cfg) (proto cfg) (leds st - 1) (leds_total cfg) (color st) = Inr None"
    using on_click_5 [OF that(1), of cfg h w] that(2)
    by (intro on_click_after_none [where ?st1.0 = ?dn]) simp_all
  have dn_ex: "(frame (mode cfg) (proto cfg) (leds st - 1) (leds_total cfg) (color st) = Inr None
                   \<longleftrightarrow> mode cfg = ''distribute'' \<and> leds st = 1)
                \<and> (\<not> (mode cfg = ''distribute'' \<and> leds st = 1) \<longrightarrow>
                     (\<exists>f. frame (mode cfg) (proto cfg) (leds st - 1) (leds_total cfg) (color st)
                            = Inr (Some f)))"
    if "0 < leds st" and "leds_total cfg \<le> 2 ^ 53"
  proof -
    have r: "0 \<le> leds st - 1" "leds st - 1 \<le> leds_total cfg" using assms that by simp_all
    have "leds st - 1 < 1 \<longleftrightarrow> leds st = 1" using that(1) by linarith
    with frame_returns [OF r that(2), of "mode cfg" "proto cfg" "color st"]
    show ?thesis by simp
  qed
  have up_all: "state_of (on_click cfg h 4 st w) = ?up
      \<and> (\<forall>f cb. frame (mode cfg) (proto cfg) (leds st + 1) (leds_total cfg) (color st)
                  = Inr (Some f)
                \<and> fromhex (color st) = Inr cb \<longrightarrow>
            (\<exists>bs. fromhex f = Inr bs
               \<and> on_click cfg h 4 st w =
                   Returned ?up (store_state ?up
                     (case sock_sendto h bs of
                        None \<Rightarrow> w\<lparr>sent := sent w @ [bs]\<rparr>
                      | Some e \<Rightarrow>
                          py3_log_add ''Failed to contact light: '' (Some e) LOG_ERROR w))))
      \<and> (leds_total cfg \<le> 2 ^ 53 \<longrightarrow>
            (\<exists>f. frame (mode cfg) (proto cfg) (leds st + 1) (leds_total cfg) (color st)
                   = Inr (Some f)))"
    if "leds st < leds_total cfg"
    apply (intro conjI allI impI)
    subgoal by (rule up_state [OF that])
    subgoal for f cb by (rule up_frame [OF that])
    subgoal by (rule up_ex [OF that])
    done
  have dn_all: "state_of (on_click cfg h 5 st w) = ?dn
      \<and> (\<forall>f cb. frame (mode cfg) (proto cfg) (leds st - 1) (leds_total cfg) (color st)
                  = Inr (Some f)
                \<and> fromhex (color st) = Inr cb \<longrightarrow>
            (\<exists>bs. fromhex f = Inr bs
               \<and> on_click cfg h 5 st w =
                   Returned ?dn (store_state ?dn
                     (case sock_sendto h bs of
                        None \<Rightarrow> w\<lparr>sent := sent w @ [bs]\<rparr>
                      | Some e \<Rightarrow>
                          py3_log_add ''Failed to contact light: '' (Some e) LOG_ERROR w))))
      \<and> (frame (mode cfg) (proto cfg) (leds st - 1) (leds_total cfg) (color st) = Inr None
            \<longrightarrow> (\<exists>w'. on_click cfg h 5 st w = Returned ?dn w' \<and> sent w' = sent w))
      \<and> (leds_total cfg \<le> 2 ^ 53 \<longrightarrow>
            (frame (mode cfg) (proto cfg) (leds st - 1) (leds_total cfg) (color st) = Inr None
               \<longleftrightarrow> mode cfg = ''distribute'' \<and> leds st = 1)
            \<and> (\<not> (mode cfg = ''distribute'' \<and> leds st = 1) \<longrightarrow>
                 (\<exists>f. frame (mode cfg) (proto cfg) (leds st - 1) (leds_total cfg) (color st)
                        = Inr (Some f))))"
    if "0 < leds st"
    apply (intro conjI allI impI)
    subgoal by (rule dn_state [OF that])
    subgoal for f cb by (rule dn_frame [OF that])
    subgoal by (rule dn_none [OF that])
    subgoal by (rule dn_ex [OF that, THEN conjunct1])
    subgoal by (rule dn_ex [OF that, THEN conjunct2, THEN mp])
    done
  show ?thesis
    apply (rule conjI, rule inv [THEN conjunct1])
    apply (rule conjI, rule inv [THEN conjunct2])
    apply (rule conjI, rule impI, erule full)
    apply (rule conjI, rule impI, erule empty)
    apply (rule conjI, rule keeps [THEN conjunct1])
    apply (rule conjI, rule keeps [THEN conjunct2])
    apply (rule conjI, rule impI, erule up_all)
    apply (rule impI, erule dn_all)
    done
qed

theorem click_scroll_invariant_witness:
  "0 \<le> leds \<lparr>leds = 1, color = ''68D74C'', color_idx = 0\<rparr>
   \<and> leds \<lparr>leds = 1, color = ''68D74C'', color_idx = 0\<rparr>
        \<le> leds_total (default_config\<lparr>leds_total := 2\<rparr>)
   \<and> frame ''default'' ''rgb'' 2 2 ''68D74C'' = Inr (Some ''68D74C68D74C'')
   \<and> fromhex ''68D74C68D74C'' = Inr [0x68, 0xD7, 0x4C, 0x68, 0xD7, 0x4C]
   \<and> on_click (default_config\<lparr>leds_total := 2\<rparr>) quiet_host 4
        \<lparr>leds = 1, color = ''68D74C'', color_idx = 0\<rparr> empty_world
      = Returned \<lparr>leds = 2, color = ''68D74C'', color_idx = 0\<rparr>
          \<lparr>sent = [[0x68, 0xD7, 0x4C, 0x68, 0xD7, 0x4C]], py3_log = [],
           py3_storage = \<lparr>stored_leds = Some 2, stored_color = Some ''68D74C'',
                           stored_color_idx = Some 0\<rparr>,
           py3_updates = 0\<rparr>
   \<and> on_click (default_config\<lparr>leds_total := 2\<rparr>) quiet_host 4
        \<lparr>leds = 2, color = ''68D74C'', color_idx = 0\<rparr> empty_world
      = Returned \<lparr>leds = 2, color = ''68D74C'', color_idx = 0\<rparr>
          \<lparr>sent = [], py3_log = [],
           py3_storage = \<lparr>stored_leds = Some 2, stored_color = Some ''68D74C'',
                           stored_color_idx = Some 0\<rparr>,
           py3_updates = 0\<rparr>"
proof -
  let ?cfg = "default_config\<lparr>leds_total := 2\<rparr>"
  let ?s1 = "\<lparr>leds = 1, color = ''68D74C'', color_idx = 0\<rparr>"
  let ?s2 = "\<lparr>leds = 2, color = ''68D74C'', color_idx = 0\<rparr>"
  have a: "0 \<le> leds ?s1" "leds ?s1 \<le> leds_total ?cfg" by simp_all
  have b: "0 \<le> leds ?s2" "leds ?s2 \<le> leds_total ?cfg" by simp_all
  have up: "?s1\<lparr>leds := leds ?s1 + 1\<rparr> = ?s2" by simp
  have lt: "leds ?s1 < leds_total ?cfg" by simp
  have eq: "leds ?s2 = leds_total ?cfg" by simp
  have fr: "frame ''default'' ''rgb'' 2 2 ''68D74C'' = Inr (Some ''68D74C68D74C'')"
    by (simp add: frame_def frame_start_def header_def py_range_def upto_rec1)
  have hx: "fromhex ''68D74C68D74C'' = Inr [0x68, 0xD7, 0x4C, 0x68, 0xD7, 0x4C]"
    by (simp add: hex_digit_def isspace_def)
  have c: "fromhex ''68D74C'' = Inr [0x68, 0xD7, 0x4C]"
    by (simp add: hex_digit_def isspace_def)
  have fr': "frame (mode ?cfg) (proto ?cfg) (leds ?s1 + 1) (leds_total ?cfg) (color ?s1)
      = Inr (Some ''68D74C68D74C'') \<and> fromhex (color ?s1) = Inr [0x68, 0xD7, 0x4C]"
    using fr c by (simp add: default_config_def)
  note t = click_scroll_invariant [OF a, of quiet_host 4 empty_world]
  note t4 = t [THEN conjunct2, THEN conjunct2, THEN conjunct2, THEN conjunct2, THEN conjunct2,
      THEN conjunct2, THEN conjunct1, THEN mp, OF lt]
  note t4f = t4 [THEN conjunct2, THEN conjunct1, rule_format, OF fr']
  from t4f obtain bs where bs: "fromhex ''68D74C68D74C'' = Inr bs"
    "on_click ?cfg quiet_host 4 ?s1 empty_world =
       Returned (?s1\<lparr>leds := leds ?s1 + 1\<rparr>) (store_state (?s1\<lparr>leds := leds ?s1 + 1\<rparr>)
         (case sock_sendto quiet_host bs of
            None \<Rightarrow> empty_world\<lparr>sent := sent empty_world @ [bs]\<rparr>
          | Some e \<Rightarrow>
              py3_log_add ''Failed to contact light: '' (Some e) LOG_ERROR empty_world))"
    by (elim exE conjE)
  from bs(1) hx have "bs = [0x68, 0xD7, 0x4C, 0x68, 0xD7, 0x4C]" by simp
  moreover have "sock_sendto quiet_host bs = None" by (simp add: quiet_host_def)
  ultimately have "on_click ?cfg quiet_host 4 ?s1 empty_world =
      Returned ?s2 (store_state ?s2
        (empty_world\<lparr>sent := sent empty_world @ [[0x68, 0xD7, 0x4C, 0x68, 0xD7, 0x4C]]\<rparr>))"
    using bs(2) unfolding up by simp
  then have 1: "on_click ?cfg quiet_host 4 ?s1 empty_world
      = Returned ?s2
          \<lparr>sent = [[0x68, 0xD7, 0x4C, 0x68, 0xD7, 0x4C]], py3_log = [],
           py3_storage = \<lparr>stored_leds = Some 2, stored_color = Some ''68D74C'',
                           stored_color_idx = Some 0\<rparr>,
           py3_updates = 0\<rparr>"
    by (simp add: store_state_def empty_world_def)
  note u = click_scroll_invariant [OF b, of quiet_host 4 empty_world]
  note u4 = u [THEN conjunct2, THEN conjunct2, THEN conjunct1, THEN mp, OF eq]
  then have 2: "on_click ?cfg quiet_host 4 ?s2 empty_world
      = Returned ?s2
          \<lparr>sent = [], py3_log = [],
           py3_storage = \<lparr>stored_leds = Some 2, stored_color = Some ''68D74C'',
                           stored_color_idx = Some 0\<rparr>,
           py3_updates = 0\<rparr>"
    by (simp add: store_state_def empty_world_def)
  from a fr hx 1 2 show ?thesis by (intro conjI)
qed

text \<open>
  The claim as it was stated fails in two ways. In mode \<^verbatim>\<open>distribute\<close> button 5 takes the
  last lit LED off and nothing is sent, though the socket would take any datagram. And with
  \<^verbatim>\<open>#00FF00\<close>, the colour of the first start, the frame is no string of hex digits: button 4
  adds a lit LED, \<^verbatim>\<open>bytes.fromhex\<close> raises \<^verbatim>\<open>ValueError\<close> inside the \<^verbatim>\<open>try\<close>, the failure is
  logged and nothing is sent.
\<close>

theorem click_scroll_invariant_counterexample:
  "frame ''distribute'' ''rgb'' 0 100 ''68D74C'' = Inr None
   \<and> state_of (on_click (default_config\<lparr>mode := ''distribute''\<rparr>) quiet_host 5
        \<lparr>leds = 1, color = ''68D74C'', color_idx = 0\<rparr> empty_world)
      = \<lparr>leds = 0, color = ''68D74C'', color_idx = 0\<rparr>
   \<and> sent (world_of (on_click (default_config\<lparr>mode := ''distribute''\<rparr>) quiet_host 5
        \<lparr>leds = 1, color = ''68D74C'', color_idx = 0\<rparr> empty_world)) = []
   \<and> frame ''default'' ''rgb'' 2 2 ''#00FF00'' = Inr (Some ''#00FF00#00FF00'')
   \<and> fromhex ''#00FF00#00FF00'' = Inl ValueError
   \<and> on_click (default_config\<lparr>leds_total := 2\<rparr>) quiet_host 4
        \<lparr>leds = 1, color = ''#00FF00'', color_idx = 0\<rparr> empty_world
      = Returned \<lparr>leds = 2, color = ''#00FF00'', color_idx = 0\<rparr>
          \<lparr>sent = [],
           py3_log = [\<lparr>msg = ''Failed to contact light: '', exn = Some ValueError,
                        lvl = LOG_ERROR\<rparr>],
           py3_storage = \<lparr>stored_leds = Some 2, stored_color = Some ''#00FF00'',
                           stored_color_idx = Some 0\<rparr>,
           py3_updates = 0\<rparr>"
proof -
  have 1: "frame ''distribute'' ''rgb'' 0 100 ''68D74C'' = Inr None"
    by (simp add: frame_distribute_none)
  then have 2: "on_click (default_config\<lparr>mode := ''distribute''\<rparr>) quiet_host 5
        \<lparr>leds = 1, color = ''68D74C'', color_idx = 0\<rparr> empty_world
      = Returned \<lparr>leds = 0, color = ''68D74C'', color_idx = 0\<rparr>
          (store_state \<lparr>leds = 0, color = ''68D74C'', color_idx = 0\<rparr>
             (try_send quiet_host None empty_world))"
    by (simp add: on_click_def click_branch_def send_frame_def default_config_def)
  have 3: "frame ''default'' ''rgb'' 2 2 ''#00FF00'' = Inr (Some ''#00FF00#00FF00'')"
    by (simp add: frame_def frame_start_def header_def py_range_def upto_rec1)
  have 4: "fromhex ''#00FF00#00FF00'' = Inl ValueError"
    by (simp add: hex_digit_def isspace_def)
  from 3 4 have 5: "on_click (default_config\<lparr>leds_total := 2\<rparr>) quiet_host 4
        \<lparr>leds = 1, color = ''#00FF00'', color_idx = 0\<rparr> empty_world
      = Returned \<lparr>leds = 2, color = ''#00FF00'', color_idx = 0\<rparr>
          \<lparr>sent = [],
           py3_log = [\<lparr>msg = ''Failed to contact light: '', exn = Some ValueError,
                        lvl = LOG_ERROR\<rparr>],
           py3_storage = \<lparr>stored_leds = Some 2, stored_color = Some ''#00FF00'',
                           stored_color_idx = Some 0\<rparr>,
           py3_updates = 0\<rparr>"
    by (simp add: on_click_def click_branch_def send_frame_def
        try_send_def py3_log_add_def store_state_def default_config_def empty_world_def)
  show ?thesis
    using 1 3 4 5 unfolding 2
    by (simp add: store_state_keeps sent_try_send_none empty_world_def)
qed

subsection \<open>Button 3\<close>

lemma fill_segment_zeros:
  "fill_segment s k ''000000'' ns fr = fr @ concat (replicate (length ns) ''000000'')"
  by (simp add: fill_segment_eq map_replicate_const)

lemma frame_default_zeros:
  "frame ''default'' p k t ''000000'' =
     Inr (Some (header p @ concat (replicate (nat t) ''000000'')))"
  by (simp add: frame_def frame_start_def fill_segment_zeros length_py_range)

lemma fromhex_frame_zeros:
  "fromhex (header p @ concat (replicate n ''000000'')) =
     Inr ((if p = ''drgb'' then [0x02, 0xFF] else []) @ replicate (3 * n) 0)"
  using fromhex_append [OF fromhex_header_of, of p "concat (replicate n ''000000'')"]
  by (simp only: fromhex_zeros sum.case)

lemma fill_distribute_zeros:
  "fill_distribute m ''000000'' ns fr = Inr f \<Longrightarrow>
     f = fr @ concat (replicate (length ns) ''000000'')"
proof (cases "m = 0")
  case True
  assume "fill_distribute m ''000000'' ns fr = Inr f"
  with True have "ns = []" "f = fr" by (cases ns; simp)+
  then show ?thesis by simp
next
  case False
  assume "fill_distribute m ''000000'' ns fr = Inr f"
  with False have "f = fr @ concat (map (\<lambda>n. ''000000'') ns)"
    by (simp add: fill_distribute_eq)
  then show ?thesis by (simp only: map_replicate_const)
qed

lemma frame_zeros:
  assumes "frame md p k t ''000000'' = Inr (Some f)"
  shows "f = header p @ concat (replicate
           (if md = ''center'' \<or> md = ''default'' \<or> md = ''distribute'' then nat t else 0)
           ''000000'')"
proof -
  consider (seg) s where "md = ''center'' \<or> md = ''default''"
      "f = fill_segment s k ''000000'' (py_range t) (header p)"
    | (dis) m where "md = ''distribute''"
      "fill_distribute m ''000000'' (py_range t) (header p) = Inr f"
    | (hdr) "md \<noteq> ''center''" "md \<noteq> ''default''" "md \<noteq> ''distribute''" "f = header p"
    using assms by (auto simp add: frame_def split: sum.splits if_splits)
  then show ?thesis
  proof cases
    case seg
    from seg(2) have "f = header p @ concat (replicate (nat t) ''000000'')"
      by (simp only: fill_segment_zeros length_py_range)
    moreover have "md = ''center'' \<or> md = ''default'' \<or> md = ''distribute''"
      using seg(1) by blast
    ultimately show ?thesis by (simp only: if_P)
  next
    case dis
    from fill_distribute_zeros [OF dis(2)]
    have "f = header p @ concat (replicate (nat t) ''000000'')"
      by (simp only: length_py_range)
    moreover have "md = ''center'' \<or> md = ''default'' \<or> md = ''distribute''"
      using dis(1) by blast
    ultimately show ?thesis by (simp only: if_P)
  next
    case hdr
    then have "\<not> (md = ''center'' \<or> md = ''default'' \<or> md = ''distribute'')" by blast
    then have "(if md = ''center'' \<or> md = ''default'' \<or> md = ''distribute'' then nat t else 0) = 0"
      by (rule if_not_P)
    with hdr(4) show ?thesis by (simp only: replicate_0 concat.simps append_Nil2)
  qed
qed

text \<open>
  C6, as amended. When the encoder returns a frame for the colour \<^verbatim>\<open>000000\<close>, that frame is
  the header followed by \<^verbatim>\<open>000000\<close> for every LED (in a mode the encoder does not know, the
  header alone); it decodes to the header's bytes followed by three zero bytes for every
  LED, a click of button 3 returns, and these bytes are handed to the socket once: the
  datagrams sent grow by this one datagram, or, when the socket refuses it, the failure is
  logged. In mode \<^verbatim>\<open>default\<close> the encoder always returns this frame. When the encoder
  returns none, the click returns with nothing handed to the socket. Whenever the click
  returns, the state is stored with the host's \<^verbatim>\<open>COLOR_GOOD\<close> as its colour and the number
  of lit LEDs and the colour index as they were; the stored colour is not \<^verbatim>\<open>000000\<close> unless
  \<^verbatim>\<open>COLOR_GOOD\<close> is. With between none and all of at most \<open>2 ^ 53\<close> LEDs lit, the encoder
  returns none exactly in mode \<^verbatim>\<open>distribute\<close> with no lit LED, and a frame otherwise.
\<close>

theorem click_button3:
  "(\<forall>f n zs. frame (mode cfg) (proto cfg) (leds st) (leds_total cfg) ''000000'' = Inr (Some f)
       \<and> n = (if mode cfg = ''center'' \<or> mode cfg = ''default'' \<or> mode cfg = ''distribute''
              then nat (leds_total cfg) else 0)
       \<and> zs = (if proto cfg = ''drgb'' then [0x02, 0xFF] else []) @ replicate (3 * n) 0 \<longrightarrow>
       f = header (proto cfg) @ concat (replicate n ''000000'')
       \<and> fromhex f = Inr zs
       \<and> on_click cfg h 3 st w =
           Returned (st\<lparr>color := COLOR_GOOD h\<rparr>)
             (store_state (st\<lparr>color := COLOR_GOOD h\<rparr>)
               (case sock_sendto h zs of
                  None \<Rightarrow> w\<lparr>sent := sent w @ [zs]\<rparr>
                | Some e \<Rightarrow>
                    py3_log_add ''Failed to contact light: '' (Some e) LOG_ERROR w)))
   \<and> (frame (mode cfg) (proto cfg) (leds st) (leds_total cfg) ''000000'' = Inr None \<longrightarrow>
         (\<exists>w'. on_click cfg h 3 st w = Returned (st\<lparr>color := COLOR_GOOD h\<rparr>) w'
            \<and> sent w' = sent w))
   \<and> (\<forall>st' w'. on_click cfg h 3 st w = Returned st' w' \<longrightarrow>
         st' = st\<lparr>color := COLOR_GOOD h\<rparr>
         \<and> py3_storage w' = \<lparr>stored_leds = Some (leds st), stored_color = Some (COLOR_GOOD h),
                               stored_color_idx = Some (color_idx st)\<rparr>
         \<and> (COLOR_GOOD h \<noteq> ''000000'' \<longrightarrow>
               stored_color (py3_storage w') \<noteq> Some ''000000''))
   \<and> (0 \<le> leds st \<and> leds st \<le> leds_total cfg \<and> leds_total cfg \<le> 2 ^ 53 \<longrightarrow>
         (frame (mode cfg) (proto cfg) (leds st) (leds_total cfg) ''000000'' = Inr None
            \<longleftrightarrow> mode cfg = ''distribute'' \<and> leds st < 1)
         \<and> (\<not> (mode cfg = ''distribute'' \<and> leds st < 1) \<longrightarrow>
              (\<exists>f. frame (mode cfg) (proto cfg) (leds st) (leds_total cfg) ''000000''
                     = Inr (Some f))))
   \<and> (mode cfg = ''default'' \<longrightarrow>
         frame (mode cfg) (proto cfg) (leds st) (leds_total cfg) ''000000'' =
           Inr (Some (header (proto cfg) @ concat (replicate (nat (leds_total cfg)) ''000000'')))
         \<and> fromhex (header (proto cfg) @ concat (replicate (nat (leds_total cfg)) ''000000'')) =
             Inr ((if proto cfg = ''drgb'' then [0x02, 0xFF] else [])
                  @ replicate (3 * nat (leds_total cfg)) 0)
         \<and> on_click cfg h 3 st w =
             Returned (st\<lparr>color := COLOR_GOOD h\<rparr>)
               (store_state (st\<lparr>color := COLOR_GOOD h\<rparr>)
                 (case sock_sendto h ((if proto cfg = ''drgb'' then [0x02, 0xFF] else [])
                                      @ replicate (3 * nat (leds_total cfg)) 0) of
                    None \<Rightarrow>
                      w\<lparr>sent := sent w @ [(if proto cfg = ''drgb'' then [0x02, 0xFF] else [])
                                           @ replicate (3 * nat (leds_total cfg)) 0]\<rparr>
                  | Some e \<Rightarrow>
                      py3_log_add ''Failed to contact light: '' (Some e) LOG_ERROR w)))"
proof -
  let ?off = "st\<lparr>color := ''000000''\<rparr>"
  let ?on = "st\<lparr>color := COLOR_GOOD h\<rparr>"
  let ?zs = "(if proto cfg = ''drgb'' then [0x02, 0xFF] else [])
               @ replicate (3 * nat (leds_total cfg)) (0 :: byte)"
  have off: "leds ?off = leds st" "color ?off = ''000000''" by simp_all
  have cz: "fromhex (color ?off) = Inr [0, 0, 0]"
    unfolding off by (rule fromhex_zero)
  have a: "\<exists>bs. fromhex f = Inr bs
          \<and> on_click cfg h 3 st w =
              Returned ?on (store_state ?on
                (case sock_sendto h bs of
                   None \<Rightarrow> w\<lparr>sent := sent w @ [bs]\<rparr>
                 | Some e \<Rightarrow> py3_log_add ''Failed to contact light: '' (Some e) LOG_ERROR w))"
    if "frame (mode cfg) (proto cfg) (leds st) (leds_total cfg) ''000000'' = Inr (Some f)" for f
  proof -
    from that have "frame (mode cfg) (proto cfg) (leds ?off) (leds_total cfg) (color ?off)
        = Inr (Some f)" unfolding off .
    with on_click_3 [of cfg h st w] show ?thesis
      using cz by (rule on_click_after_send)
  qed
  have a': "f = header (proto cfg) @ concat (replicate n ''000000'')
      \<and> fromhex f = Inr zs
      \<and> on_click cfg h 3 st w =
          Returned ?on (store_state ?on
            (case sock_sendto h zs of
               None \<Rightarrow> w\<lparr>sent := sent w @ [zs]\<rparr>
             | Some e \<Rightarrow> py3_log_add ''Failed to contact light: '' (Some e) LOG_ERROR w))"
    if h: "frame (mode cfg) (proto cfg) (leds st) (leds_total cfg) ''000000'' = Inr (Some f)
        \<and> n = (if mode cfg = ''center'' \<or> mode cfg = ''default'' \<or> mode cfg = ''distribute''
               then nat (leds_total cfg) else 0)
        \<and> zs = (if proto cfg = ''drgb'' then [0x02, 0xFF] else []) @ replicate (3 * n) 0"
    for f n zs
  proof -
    note fr = h [THEN conjunct1]
    note n = h [THEN conjunct2, THEN conjunct1]
    note zs = h [THEN conjunct2, THEN conjunct2]
    have f: "f = header (proto cfg) @ concat (replicate n ''000000'')"
      unfolding n using fr by (rule frame_zeros)
    have d: "fromhex f = Inr zs" unfolding f zs by (rule fromhex_frame_zeros)
    from a [OF fr] obtain bs where
      bs: "fromhex f = Inr bs"
        "on_click cfg h 3 st w =
           Returned ?on (store_state ?on
             (case sock_sendto h bs of
                None \<Rightarrow> w\<lparr>sent := sent w @ [bs]\<rparr>
              | Some e \<Rightarrow> py3_log_add ''Failed to contact light: '' (Some e) LOG_ERROR w))"
      by (elim exE conjE)
    from bs(1) have "bs = zs" unfolding d by (simp only: sum.inject)
    with bs(2) have "on_click cfg h 3 st w =
          Returned ?on (store_state ?on
            (case sock_sendto h zs of
               None \<Rightarrow> w\<lparr>sent := sent w @ [zs]\<rparr>
             | Some e \<Rightarrow> py3_log_add ''Failed to contact light: '' (Some e) LOG_ERROR w))"
      by (simp only:)
    with f d show ?thesis by (intro conjI)
  qed
  have b: "\<exists>w'. on_click cfg h 3 st w = Returned ?on w' \<and> sent w' = sent w"
    if "frame (mode cfg) (proto cfg) (leds st) (leds_total cfg) ''000000'' = Inr None"
  proof -
    from that have "frame (mode cfg) (proto cfg) (leds ?off) (leds_total cfg) (color ?off)
        = Inr None" unfolding off .
    with on_click_3 [of cfg h st w] show ?thesis by (rule on_click_after_none)
  qed
  have c: "st' = ?on
      \<and> py3_storage w' = \<lparr>stored_leds = Some (leds st), stored_color = Some (COLOR_GOOD h),
                            stored_color_idx = Some (color_idx st)\<rparr>
      \<and> (COLOR_GOOD h \<noteq> ''000000'' \<longrightarrow> stored_color (py3_storage w') \<noteq> Some ''000000'')"
    if r: "on_click cfg h 3 st w = Returned st' w'" for st' w'
  proof -
    from r have s: "st' = ?on" unfolding on_click_3 by (simp split: sum.splits)
    from on_click_returned_storage [OF r]
    have p: "py3_storage w' = \<lparr>stored_leds = Some (leds st), stored_color = Some (COLOR_GOOD h),
        stored_color_idx = Some (color_idx st)\<rparr>"
      unfolding s by simp
    have "stored_color (py3_storage w') = Some (COLOR_GOOD h)" unfolding p by simp
    then have "COLOR_GOOD h \<noteq> ''000000'' \<longrightarrow> stored_color (py3_storage w') \<noteq> Some ''000000''"
      by (simp only: option.inject simp_thms)
    with s p show ?thesis by (intro conjI)
  qed
  have d: "(frame (mode cfg) (proto cfg) (leds st) (leds_total cfg) ''000000'' = Inr None
            \<longleftrightarrow> mode cfg = ''distribute'' \<and> leds st < 1)
         \<and> (\<not> (mode cfg = ''distribute'' \<and> leds st < 1) \<longrightarrow>
              (\<exists>f. frame (mode cfg) (proto cfg) (leds st) (leds_total cfg) ''000000''
                     = Inr (Some f)))"
    if "0 \<le> leds st \<and> leds st \<le> leds_total cfg \<and> leds_total cfg \<le> 2 ^ 53"
    using that by (intro frame_returns) simp_all
  have e1: "frame (mode cfg) (proto cfg) (leds st) (leds_total cfg) ''000000'' =
           Inr (Some (header (proto cfg) @ concat (replicate (nat (leds_total cfg)) ''000000'')))"
    if "mode cfg = ''default''"
    unfolding that by (rule frame_default_zeros)
  have e2: "fromhex (header (proto cfg) @ concat (replicate (nat (leds_total cfg)) ''000000''))
      = Inr ?zs"
    by (rule fromhex_frame_zeros)
  have e3: "on_click cfg h 3 st w =
      Returned ?on (store_state ?on
        (case sock_sendto h ?zs of
           None \<Rightarrow> w\<lparr>sent := sent w @ [?zs]\<rparr>
         | Some e \<Rightarrow> py3_log_add ''Failed to contact light: '' (Some e) LOG_ERROR w))"
    if m: "mode cfg = ''default''"
  proof -
    from a [OF e1 [OF m]] obtain bs where
      bs: "fromhex (header (proto cfg) @ concat (replicate (nat (leds_total cfg)) ''000000''))
             = Inr bs"
        "on_click cfg h 3 st w =
           Returned ?on (store_state ?on
             (case sock_sendto h bs of
                None \<Rightarrow> w\<lparr>sent := sent w @ [bs]\<rparr>
              | Some e \<Rightarrow> py3_log_add ''Failed to contact light: '' (Some e) LOG_ERROR w))"
      by (elim exE conjE)
    from bs(1) have "bs = ?zs" unfolding e2 by (simp only: sum.inject)
    with bs(2) show ?thesis by (simp only:)
  qed
  show ?thesis
    apply (intro conjI allI impI)
    subgoal for f n zs by (rule a' [THEN conjunct1])
    subgoal for f n zs by (rule a' [THEN conjunct2, THEN conjunct1])
    subgoal for f n zs by (rule a' [THEN conjunct2, THEN conjunct2])
    subgoal by (rule b)
    subgoal for st' w' by (rule c [THEN conjunct1])
    subgoal for st' w' by (rule c [THEN conjunct2, THEN conjunct1])
    subgoal for st' w' by (rule c [THEN conjunct2, THEN conjunct2, THEN mp])
    subgoal using d by blast
    subgoal using d by blast
    subgoal by (rule e1)
    subgoal by (rule e2)
    subgoal by (rule e3)
    done
qed

theorem click_button3_witness:
  "mode (default_config\<lparr>proto := ''drgb'', leds_total := 2\<rparr>) = ''default''
   \<and> frame ''default'' ''drgb'' 1 2 ''000000'' = Inr (Some ''02FF000000000000'')
   \<and> fromhex ''02FF000000000000'' = Inr [0x02, 0xFF, 0, 0, 0, 0, 0, 0]
   \<and> on_click (default_config\<lparr>proto := ''drgb'', leds_total := 2\<rparr>) quiet_host 3
        \<lparr>leds = 1, color = ''68D74C'', color_idx = 2\<rparr> empty_world
      = Returned \<lparr>leds = 1, color = ''#00FF00'', color_idx = 2\<rparr>
          \<lparr>sent = [[0x02, 0xFF, 0, 0, 0, 0, 0, 0]], py3_log = [],
           py3_storage = \<lparr>stored_leds = Some 1, stored_color = Some ''#00FF00'',
                           stored_color_idx = Some 2\<rparr>,
           py3_updates = 0\<rparr>"
proof -
  let ?cfg = "default_config\<lparr>proto := ''drgb'', leds_total := 2\<rparr>"
  let ?st = "\<lparr>leds = 1, color = ''68D74C'', color_idx = 2\<rparr>"
  have m: "mode ?cfg = ''default''" by (simp add: default_config_def)
  note t = click_button3 [of ?cfg ?st quiet_host empty_world]
  note t5 = t [THEN conjunct2, THEN conjunct2, THEN conjunct2, THEN conjunct2, THEN mp, OF m]
  have z: "(if proto ?cfg = ''drgb'' then [0x02, 0xFF] else [])
             @ replicate (3 * nat (leds_total ?cfg)) (0 :: byte)
           = [0x02, 0xFF, 0, 0, 0, 0, 0, 0]"
    by (simp add: numeral_eq_Suc)
  have fr: "frame ''default'' ''drgb'' 1 2 ''000000'' = Inr (Some ''02FF000000000000'')"
    by (simp add: frame_def frame_start_def header_def py_range_def upto_rec1)
  have hx: "fromhex ''02FF000000000000'' = Inr [0x02, 0xFF, 0, 0, 0, 0, 0, 0]"
    by (simp add: hex_digit_def isspace_def)
  from t5 [THEN conjunct2, THEN conjunct2]
  have "on_click ?cfg quiet_host 3 ?st empty_world
      = Returned \<lparr>leds = 1, color = ''#00FF00'', color_idx = 2\<rparr>
          \<lparr>sent = [[0x02, 0xFF, 0, 0, 0, 0, 0, 0]], py3_log = [],
           py3_storage = \<lparr>stored_leds = Some 1, stored_color = Some ''#00FF00'',
                           stored_color_idx = Some 2\<rparr>,
           py3_updates = 0\<rparr>"
    unfolding z by (simp add: quiet_host_def store_state_def empty_world_def)
  with m fr hx show ?thesis by (intro conjI)
qed

text \<open>
  The claim as it was stated fails in two ways. In mode \<^verbatim>\<open>distribute\<close> with no lit LED the
  click sends nothing. And on a host whose \<^verbatim>\<open>COLOR_GOOD\<close> is \<^verbatim>\<open>000000\<close> the stored colour is
  all-zero after the click.
\<close>

theorem click_button3_counterexample:
  "frame ''distribute'' ''rgb'' 0 100 ''000000'' = Inr None
   \<and> state_of (on_click (default_config\<lparr>mode := ''distribute''\<rparr>) quiet_host 3
        \<lparr>leds = 0, color = ''68D74C'', color_idx = 0\<rparr> empty_world)
      = \<lparr>leds = 0, color = ''#00FF00'', color_idx = 0\<rparr>
   \<and> sent (world_of (on_click (default_config\<lparr>mode := ''distribute''\<rparr>) quiet_host 3
        \<lparr>leds = 0, color = ''68D74C'', color_idx = 0\<rparr> empty_world)) = []
   \<and> COLOR_GOOD (quiet_host\<lparr>COLOR_GOOD := ''000000''\<rparr>) = ''000000''
   \<and> on_click (default_config\<lparr>leds_total := 2\<rparr>) (quiet_host\<lparr>COLOR_GOOD := ''000000''\<rparr>) 3
        \<lparr>leds = 1, color = ''68D74C'', color_idx = 0\<rparr> empty_world
      = Returned \<lparr>leds = 1, color = ''000000'', color_idx = 0\<rparr>
          \<lparr>sent = [[0, 0, 0, 0, 0, 0]], py3_log = [],
           py3_storage = \<lparr>stored_leds = Some 1, stored_color = Some ''000000'',
                           stored_color_idx = Some 0\<rparr>,
           py3_updates = 0\<rparr>"
proof -
  have 1: "frame ''distribute'' ''rgb'' 0 100 ''000000'' = Inr None"
    by (simp add: frame_distribute_none)
  then have 2: "on_click (default_config\<lparr>mode := ''distribute''\<rparr>) quiet_host 3
        \<lparr>leds = 0, color = ''68D74C'', color_idx = 0\<rparr> empty_world
      = Returned \<lparr>leds = 0, color = ''#00FF00'', color_idx = 0\<rparr>
          (store_state \<lparr>leds = 0, color = ''#00FF00'', color_idx = 0\<rparr>
             (try_send quiet_host None empty_world))"
    by (simp add: on_click_def click_branch_def send_frame_def default_config_def quiet_host_def)
  have 3: "frame ''default'' ''rgb'' 1 2 ''000000'' = Inr (Some ''000000000000'')"
    by (simp add: frame_def frame_start_def header_def py_range_def upto_rec1)
  have 4: "fromhex ''000000000000'' = Inr [0, 0, 0, 0, 0, 0]"
    by (simp add: hex_digit_def isspace_def)
  from 3 4 have 5: "on_click (default_config\<lparr>leds_total := 2\<rparr>)
        (quiet_host\<lparr>COLOR_GOOD := ''000000''\<rparr>) 3
        \<lparr>leds = 1, color = ''68D74C'', color_idx = 0\<rparr> empty_world
      = Returned \<lparr>leds = 1, color = ''000000'', color_idx = 0\<rparr>
          \<lparr>sent = [[0, 0, 0, 0, 0, 0]], py3_log = [],
           py3_storage = \<lparr>stored_leds = Some 1, stored_color = Some ''000000'',
                           stored_color_idx = Some 0\<rparr>,
           py3_updates = 0\<rparr>"
    by (simp add: on_click_def click_branch_def send_frame_def
        try_send_def store_state_def default_config_def empty_world_def quiet_host_def)
  show ?thesis
    using 1 5 unfolding 2
    by (simp add: store_state_keeps sent_try_send_none empty_world_def)
qed

subsection \<open>Other buttons, and storing\<close>

text \<open>
  C9, as amended. A click of a button other than 1 to 5 returns the state as it was and
  changes nothing outside but the stored copy: no frame is emitted and nothing is logged.
  Every click that returns has written the number of lit LEDs, the colour and the colour
  index it leaves to the storage. A click that raises has written nothing.
\<close>

theorem click_other_and_store:
  "(b \<noteq> 1 \<and> b \<noteq> 2 \<and> b \<noteq> 3 \<and> b \<noteq> 4 \<and> b \<noteq> 5 \<longrightarrow>
      on_click cfg h b st w = Returned st (store_state st w)
      \<and> sent (world_of (on_click cfg h b st w)) = sent w
      \<and> py3_log (world_of (on_click cfg h b st w)) = py3_log w)
   \<and> (\<forall>st' w'. on_click cfg h b st w = Returned st' w' \<longrightarrow>
         py3_storage w' = \<lparr>stored_leds = Some (leds st'), stored_color = Some (color st'),
                            stored_color_idx = Some (color_idx st')\<rparr>)
   \<and> (\<forall>e st' w'. on_click cfg h b st w = Raised e st' w' \<longrightarrow> py3_storage w' = py3_storage w)"
proof -
  have a: "on_click cfg h b st w = Returned st (store_state st w)
      \<and> sent (world_of (on_click cfg h b st w)) = sent w
      \<and> py3_log (world_of (on_click cfg h b st w)) = py3_log w"
    if "b \<noteq> 1 \<and> b \<noteq> 2 \<and> b \<noteq> 3 \<and> b \<noteq> 4 \<and> b \<noteq> 5"
  proof -
    from that have "on_click cfg h b st w = Returned st (store_state st w)"
      by (intro on_click_other) simp_all
    then show ?thesis by (simp add: store_state_keeps)
  qed
  show ?thesis
    using a on_click_returned_storage [of cfg h b st w] on_click_raised_storage [of cfg h b st w]
    by blast
qed

theorem click_other_and_store_witness:
  "(8::int) \<noteq> 1 \<and> (8::int) \<noteq> 2 \<and> (8::int) \<noteq> 3 \<and> (8::int) \<noteq> 4 \<and> (8::int) \<noteq> 5
   \<and> on_click default_config quiet_host 8
        \<lparr>leds = 23, color = ''#00FF00'', color_idx = 0\<rparr> empty_world
      = Returned \<lparr>leds = 23, color = ''#00FF00'', color_idx = 0\<rparr>
          (store_state \<lparr>leds = 23, color = ''#00FF00'', color_idx = 0\<rparr> empty_world)
   \<and> py3_storage (store_state \<lparr>leds = 23, color = ''#00FF00'', color_idx = 0\<rparr> empty_world)
      = \<lparr>stored_leds = Some 23, stored_color = Some ''#00FF00'', stored_color_idx = Some 0\<rparr>"
proof -
  let ?st = "\<lparr>leds = 23, color = ''#00FF00'', color_idx = 0\<rparr>"
  have n: "(8::int) \<noteq> 1 \<and> (8::int) \<noteq> 2 \<and> (8::int) \<noteq> 3 \<and> (8::int) \<noteq> 4 \<and> (8::int) \<noteq> 5"
    by simp
  note t = click_other_and_store [of 8 default_config quiet_host ?st empty_world]
  from t n have r: "on_click default_config quiet_host 8 ?st empty_world
      = Returned ?st (store_state ?st empty_world)" by blast
  with t have "py3_storage (store_state ?st empty_world)
      = \<lparr>stored_leds = Some (leds ?st), stored_color = Some (color ?st),
         stored_color_idx = Some (color_idx ?st)\<rparr>" by blast
  then have "py3_storage (store_state ?st empty_world)
      = \<lparr>stored_leds = Some 23, stored_color = Some ''#00FF00'', stored_color_idx = Some 0\<rparr>"
    by simp
  with n r show ?thesis by blast
qed

text \<open>
  The claim as it was stated fails: \<^verbatim>\<open>_store_state\<close> is the last statement of \<^verbatim>\<open>on_click\<close>
  and nothing guards the branches. A click of button 2 on a machine without the colour
  picker raises, and so does a click of button 1 in mode \<^verbatim>\<open>distribute\<close> with 23 lit LEDs out
  of 10; neither writes to the storage.
\<close>

theorem click_other_and_store_counterexample:
  "on_click default_config no_picker_host 2
     \<lparr>leds = 23, color = ''#00FF00'', color_idx = 0\<rparr> empty_world
   = Raised OSError \<lparr>leds = 23, color = ''#00FF00'', color_idx = 0\<rparr> empty_world
   \<and> on_click (default_config\<lparr>mode := ''distribute'', leds_total := 10\<rparr>) quiet_host 1
        \<lparr>leds = 23, color = ''#00FF00'', color_idx = 0\<rparr> empty_world
      = Raised ZeroDivisionError \<lparr>leds = 23, color = ''#E05B22'', color_idx = 1\<rparr> empty_world
   \<and> py3_storage empty_world
      = \<lparr>stored_leds = None, stored_color = None, stored_color_idx = None\<rparr>"
proof -
  have 1: "on_click default_config no_picker_host 2
     \<lparr>leds = 23, color = ''#00FF00'', color_idx = 0\<rparr> empty_world
   = Raised OSError \<lparr>leds = 23, color = ''#00FF00'', color_idx = 0\<rparr> empty_world"
    by (simp add: on_click_def click_branch_def no_picker_host_def)
  have "frame ''distribute'' ''rgb'' 23 10 ''#E05B22'' = Inl ZeroDivisionError"
    by (rule frame_distribute_raises) simp_all
  then have 2: "on_click (default_config\<lparr>mode := ''distribute'', leds_total := 10\<rparr>) quiet_host 1
        \<lparr>leds = 23, color = ''#00FF00'', color_idx = 0\<rparr> empty_world
      = Raised ZeroDivisionError \<lparr>leds = 23, color = ''#E05B22'', color_idx = 1\<rparr> empty_world"
    by (simp add: on_click_def click_branch_def ncolors_def py_index_def send_frame_def
        default_config_def)
  have 3: "py3_storage empty_world
      = \<lparr>stored_leds = None, stored_color = None, stored_color_idx = None\<rparr>"
    by (simp add: empty_world_def)
  show ?thesis using 1 2 3 by blast
qed

end
